theory Spec2Isabelle
  imports Complex_Main
begin

section \<open>Column types\<close>

text \<open>
  The schema is the SQL migration: eight tables in schema \<open>public\<close>, row level security
  enabled on each, one set of policies per table, and two trigger functions. UUIDs are only
  ever compared for equality, so a UUID is a natural number here. A nullable column is an
  \<open>option\<close> (\<open>None\<close> is SQL NULL); a \<open>NOT NULL\<close> column (and a primary key) is not.
\<close>

type_synonym uuid = nat
type_synonym txt_col = string
type_synonym timestamptz = int
type_synonym date = int

text \<open>
  JSONB values, as far as the migration looks into them: a top-level object with its
  members, or anything else. Of a member the operator \<open>->>\<close> gives the text: SQL NULL for
  JSON null, the characters of a JSON string, and for every other value (a number, a
  boolean, a nested array or object) the text the database prints it as; \<open>JOther\<close> carries
  that text.
\<close>

datatype json_value = JNull | JString txt_col | JOther txt_col

datatype jsonb = JObject "(txt_col \<times> json_value) list" | JNotObject

section \<open>Tables\<close>

text \<open>\<open>auth.users\<close> belongs to the authentication service; the migration uses its \<open>id\<close>
  (referenced by four foreign keys) and its \<open>raw_user_meta_data\<close> (read by the signup
  trigger).\<close>

record auth_user =
  au_id :: uuid
  au_raw_user_meta_data :: "jsonb option"

record profile =
  p_id :: uuid
  p_full_name :: "txt_col option"
  p_phone :: "txt_col option"
  p_preferred_language :: "txt_col option"
  p_education_level :: "txt_col option"
  p_interests :: "txt_col list option"
  p_location :: "txt_col option"
  p_created_at :: "timestamptz option"
  p_updated_at :: "timestamptz option"

record college =
  col_id :: uuid
  col_name :: txt_col
  col_type :: txt_col
  col_location :: txt_col
  col_state :: txt_col
  col_fees_per_year :: "rat option"
  col_ranking :: "int option"
  col_admission_criteria :: "txt_col option"
  col_contact_info :: "jsonb option"
  col_created_at :: "timestamptz option"

record scholarship =
  sch_id :: uuid
  sch_title :: txt_col
  sch_description :: txt_col
  sch_amount :: rat
  sch_eligibility_criteria :: txt_col
  sch_deadline :: date
  sch_application_link :: "txt_col option"
  sch_category :: txt_col
  sch_is_active :: "bool option"
  sch_created_at :: "timestamptz option"

record career_path =
  car_id :: uuid
  car_title :: txt_col
  car_description :: txt_col
  car_required_education :: txt_col
  car_average_salary :: "rat option"
  car_job_outlook :: "txt_col option"
  car_skills_required :: "txt_col list option"
  car_related_courses :: "txt_col list option"
  car_created_at :: "timestamptz option"

record chat_conversation =
  cc_id :: uuid
  cc_user_id :: uuid
  cc_title :: "txt_col option"
  cc_language :: "txt_col option"
  cc_created_at :: "timestamptz option"
  cc_updated_at :: "timestamptz option"

record chat_message =
  cm_id :: uuid
  cm_conversation_id :: uuid
  cm_content :: txt_col
  cm_is_user :: bool
  cm_created_at :: "timestamptz option"

record user_progress_row =
  up_id :: uuid
  up_user_id :: uuid
  up_quest_type :: txt_col
  up_status :: "txt_col option"
  up_points :: "int option"
  up_metadata :: "jsonb option"
  up_completed_at :: "timestamptz option"
  up_created_at :: "timestamptz option"
  up_updated_at :: "timestamptz option"

record user_saved_item =
  usi_id :: uuid
  usi_user_id :: uuid
  usi_item_type :: txt_col
  usi_item_id :: uuid
  usi_notes :: "txt_col option"
  usi_created_at :: "timestamptz option"

text \<open>The database: every table is the list of its rows, in heap order.\<close>

record db =
  auth_users :: "auth_user list"
  profiles :: "profile list"
  colleges :: "college list"
  scholarships :: "scholarship list"
  career_paths :: "career_path list"
  chat_conversations :: "chat_conversation list"
  chat_messages :: "chat_message list"
  user_progress :: "user_progress_row list"
  user_saved_items :: "user_saved_item list"

section \<open>Sessions and row level security\<close>

text \<open>
  A request reaches the database under a role and with the value of \<open>auth.uid()\<close>, which is
  NULL when the request carries no principal. The migration names one role,
  \<open>authenticated\<close>, in the \<open>TO\<close> clause of the three reference tables' policies; \<open>anon\<close> is
  the role of a request without a login. Both are ordinary roles: row level security
  applies to them, and the table privileges are taken as granted to both, so that the
  policies alone decide. The owner of the tables is not a session here: it appears only as
  the definer of \<open>handle_new_user\<close>.
\<close>

datatype db_role = anon | authenticated

record session =
  sess_role :: db_role
  auth_uid :: "uuid option"

datatype command = SELECT | INSERT | UPDATE | DELETE

text \<open>SQL's three-valued comparison and conjunction; a policy admits a row only when its
  expression is true, so NULL denies.\<close>

definition sql_eq :: "'a option \<Rightarrow> 'a option \<Rightarrow> bool option" where
  "sql_eq a b = (case a of None \<Rightarrow> None
                 | Some x \<Rightarrow> (case b of None \<Rightarrow> None | Some y \<Rightarrow> Some (x = y)))"

definition sql_and :: "bool option \<Rightarrow> bool option \<Rightarrow> bool option" where
  "sql_and a b = (if a = Some False \<or> b = Some False then Some False
                  else if a = Some True \<and> b = Some True then Some True else None)"

text \<open>
  A policy as \<open>CREATE POLICY\<close> declares it: its name, its table's command, the role of its
  \<open>TO\<close> clause (\<open>None\<close> when there is none: the policy applies to every role), and its
  \<open>USING\<close> and \<open>WITH CHECK\<close> expressions where given. An expression sees the session, the
  database (for a subquery) and the row.
\<close>

record 'r policy =
  pol_name :: string
  pol_cmd :: command
  pol_to :: "db_role option"
  pol_using :: "(session \<Rightarrow> db \<Rightarrow> 'r \<Rightarrow> bool option) option"
  pol_check :: "(session \<Rightarrow> db \<Rightarrow> 'r \<Rightarrow> bool option) option"

definition applies :: "'r policy \<Rightarrow> session \<Rightarrow> command \<Rightarrow> bool" where
  "applies p s c =
     (pol_cmd p = c \<and> (case pol_to p of None \<Rightarrow> True | Some r \<Rightarrow> sess_role s = r))"

text \<open>
  With row level security enabled, an existing row is visible to a command when some
  policy that applies passes its \<open>USING\<close> expression on it, and a new row is accepted when
  some policy that applies passes its \<open>WITH CHECK\<close> expression (for \<open>UPDATE\<close>, the \<open>USING\<close>
  expression where no \<open>WITH CHECK\<close> is given). No policy that applies: nothing is visible
  and nothing is accepted.
\<close>

definition using_passes :: "'r policy list \<Rightarrow> session \<Rightarrow> command \<Rightarrow> db \<Rightarrow> 'r \<Rightarrow> bool" where
  "using_passes pols s c d r =
     list_ex (\<lambda>p. applies p s c \<and>
                (case pol_using p of None \<Rightarrow> True | Some e \<Rightarrow> e s d r = Some True)) pols"

definition check_passes :: "'r policy list \<Rightarrow> session \<Rightarrow> command \<Rightarrow> db \<Rightarrow> 'r \<Rightarrow> bool" where
  "check_passes pols s c d r =
     list_ex (\<lambda>p. applies p s c \<and>
                (case pol_check p of
                   Some e \<Rightarrow> e s d r = Some True
                 | None \<Rightarrow> (case pol_using p of None \<Rightarrow> True | Some e \<Rightarrow> e s d r = Some True)))
             pols"

text \<open>The decision of the access-control layer on one row: the new row of an \<open>INSERT\<close>, the
  existing row of a \<open>SELECT\<close>, \<open>UPDATE\<close> or \<open>DELETE\<close>.\<close>

definition permits :: "'r policy list \<Rightarrow> session \<Rightarrow> command \<Rightarrow> db \<Rightarrow> 'r \<Rightarrow> bool" where
  "permits pols s c d r =
     (case c of INSERT \<Rightarrow> check_passes pols s c d r | _ \<Rightarrow> using_passes pols s c d r)"

definition rls_select :: "'r policy list \<Rightarrow> session \<Rightarrow> db \<Rightarrow> 'r list \<Rightarrow> 'r list" where
  "rls_select pols s d rows = filter (permits pols s SELECT d) rows"

section \<open>The policies of the migration\<close>

definition profiles_policies :: "profile policy list" where
  "profiles_policies =
     [\<lparr>pol_name = ''Users can view their own profile'', pol_cmd = SELECT, pol_to = None,
       pol_using = Some (\<lambda>s d r. sql_eq (auth_uid s) (Some (p_id r))), pol_check = None\<rparr>,
      \<lparr>pol_name = ''Users can update their own profile'', pol_cmd = UPDATE, pol_to = None,
       pol_using = Some (\<lambda>s d r. sql_eq (auth_uid s) (Some (p_id r))), pol_check = None\<rparr>,
      \<lparr>pol_name = ''Users can insert their own profile'', pol_cmd = INSERT, pol_to = None,
       pol_using = None,
       pol_check = Some (\<lambda>s d r. sql_eq (auth_uid s) (Some (p_id r)))\<rparr>]"

definition colleges_policies :: "college policy list" where
  "colleges_policies =
     [\<lparr>pol_name = ''Anyone can view colleges'', pol_cmd = SELECT,
       pol_to = Some authenticated,
       pol_using = Some (\<lambda>s d r. Some True), pol_check = None\<rparr>]"

definition scholarships_policies :: "scholarship policy list" where
  "scholarships_policies =
     [\<lparr>pol_name = ''Anyone can view active scholarships'', pol_cmd = SELECT,
       pol_to = Some authenticated,
       pol_using = Some (\<lambda>s d r. sql_eq (sch_is_active r) (Some True)), pol_check = None\<rparr>]"

definition career_paths_policies :: "career_path policy list" where
  "career_paths_policies =
     [\<lparr>pol_name = ''Anyone can view career paths'', pol_cmd = SELECT,
       pol_to = Some authenticated,
       pol_using = Some (\<lambda>s d r. Some True), pol_check = None\<rparr>]"

definition chat_conversations_policies :: "chat_conversation policy list" where
  "chat_conversations_policies =
     [\<lparr>pol_name = ''Users can view their own conversations'', pol_cmd = SELECT, pol_to = None,
       pol_using = Some (\<lambda>s d r. sql_eq (auth_uid s) (Some (cc_user_id r))), pol_check = None\<rparr>,
      \<lparr>pol_name = ''Users can create their own conversations'', pol_cmd = INSERT, pol_to = None,
       pol_using = None,
       pol_check = Some (\<lambda>s d r. sql_eq (auth_uid s) (Some (cc_user_id r)))\<rparr>,
      \<lparr>pol_name = ''Users can update their own conversations'', pol_cmd = UPDATE, pol_to = None,
       pol_using = Some (\<lambda>s d r. sql_eq (auth_uid s) (Some (cc_user_id r))), pol_check = None\<rparr>,
      \<lparr>pol_name = ''Users can delete their own conversations'', pol_cmd = DELETE, pol_to = None,
       pol_using = Some (\<lambda>s d r. sql_eq (auth_uid s) (Some (cc_user_id r))), pol_check = None\<rparr>]"

text \<open>
  The two policies of \<open>chat_messages\<close> share one expression: \<open>EXISTS\<close> over the
  conversations with the message's \<open>conversation_id\<close> and the requester's \<open>user_id\<close>. The
  subquery runs as the requester, so it reads \<open>chat_conversations\<close> through that table's
  own \<open>SELECT\<close> policy. \<open>EXISTS\<close> is never NULL.
\<close>

definition owns_parent_conversation :: "session \<Rightarrow> db \<Rightarrow> chat_message \<Rightarrow> bool option" where
  "owns_parent_conversation s d m =
     Some (list_ex (\<lambda>c. sql_and (sql_eq (Some (cc_id c)) (Some (cm_conversation_id m)))
                                  (sql_eq (Some (cc_user_id c)) (auth_uid s)) = Some True)
                   (rls_select chat_conversations_policies s d (chat_conversations d)))"

definition chat_messages_policies :: "chat_message policy list" where
  "chat_messages_policies =
     [\<lparr>pol_name = ''Users can view messages in their conversations'', pol_cmd = SELECT,
       pol_to = None, pol_using = Some owns_parent_conversation, pol_check = None\<rparr>,
      \<lparr>pol_name = ''Users can insert messages in their conversations'', pol_cmd = INSERT,
       pol_to = None, pol_using = None, pol_check = Some owns_parent_conversation\<rparr>]"

definition user_progress_policies :: "user_progress_row policy list" where
  "user_progress_policies =
     [\<lparr>pol_name = ''Users can view their own progress'', pol_cmd = SELECT, pol_to = None,
       pol_using = Some (\<lambda>s d r. sql_eq (auth_uid s) (Some (up_user_id r))), pol_check = None\<rparr>,
      \<lparr>pol_name = ''Users can insert their own progress'', pol_cmd = INSERT, pol_to = None,
       pol_using = None,
       pol_check = Some (\<lambda>s d r. sql_eq (auth_uid s) (Some (up_user_id r)))\<rparr>,
      \<lparr>pol_name = ''Users can update their own progress'', pol_cmd = UPDATE, pol_to = None,
       pol_using = Some (\<lambda>s d r. sql_eq (auth_uid s) (Some (up_user_id r))), pol_check = None\<rparr>]"

definition user_saved_items_policies :: "user_saved_item policy list" where
  "user_saved_items_policies =
     [\<lparr>pol_name = ''Users can view their own saved items'', pol_cmd = SELECT, pol_to = None,
       pol_using = Some (\<lambda>s d r. sql_eq (auth_uid s) (Some (usi_user_id r))), pol_check = None\<rparr>,
      \<lparr>pol_name = ''Users can insert their own saved items'', pol_cmd = INSERT, pol_to = None,
       pol_using = None,
       pol_check = Some (\<lambda>s d r. sql_eq (auth_uid s) (Some (usi_user_id r)))\<rparr>,
      \<lparr>pol_name = ''Users can delete their own saved items'', pol_cmd = DELETE, pol_to = None,
       pol_using = Some (\<lambda>s d r. sql_eq (auth_uid s) (Some (usi_user_id r))), pol_check = None\<rparr>]"

section \<open>Constraints and table-level writes\<close>

text \<open>
  The errors a statement ends with: a row level security violation, a duplicate key
  (primary key or \<open>UNIQUE\<close>) and a broken foreign key. A statement that ends with an error
  changes nothing.
\<close>

datatype db_error = AuthorizationDenied | UniquenessViolation | ForeignKeyViolation

definition user_exists :: "db \<Rightarrow> uuid \<Rightarrow> bool" where
  "user_exists d u = list_ex (\<lambda>x. au_id x = u) (auth_users d)"

definition conversation_exists :: "chat_conversation list \<Rightarrow> uuid \<Rightarrow> bool" where
  "conversation_exists cs k = list_ex (\<lambda>c. cc_id c = k) cs"

text \<open>
  What each \<open>CREATE TABLE\<close> lets into its table, row level security aside: the primary
  key, the \<open>UNIQUE\<close> constraint where there is one, then the foreign keys. Rows arrive with
  their defaults filled in.
\<close>

definition table_insert_profiles :: "profile \<Rightarrow> db \<Rightarrow> db_error + db" where
  "table_insert_profiles r d =
     (if list_ex (\<lambda>x. p_id x = p_id r) (profiles d) then Inl UniquenessViolation
      else if \<not> user_exists d (p_id r) then Inl ForeignKeyViolation
      else Inr (d\<lparr>profiles := profiles d @ [r]\<rparr>))"

definition table_insert_chat_conversations :: "chat_conversation \<Rightarrow> db \<Rightarrow> db_error + db" where
  "table_insert_chat_conversations r d =
     (if list_ex (\<lambda>x. cc_id x = cc_id r) (chat_conversations d) then Inl UniquenessViolation
      else if \<not> user_exists d (cc_user_id r) then Inl ForeignKeyViolation
      else Inr (d\<lparr>chat_conversations := chat_conversations d @ [r]\<rparr>))"

definition table_insert_chat_messages :: "chat_message \<Rightarrow> db \<Rightarrow> db_error + db" where
  "table_insert_chat_messages r d =
     (if list_ex (\<lambda>x. cm_id x = cm_id r) (chat_messages d) then Inl UniquenessViolation
      else if \<not> conversation_exists (chat_conversations d) (cm_conversation_id r)
        then Inl ForeignKeyViolation
      else Inr (d\<lparr>chat_messages := chat_messages d @ [r]\<rparr>))"

definition table_insert_user_progress :: "user_progress_row \<Rightarrow> db \<Rightarrow> db_error + db" where
  "table_insert_user_progress r d =
     (if list_ex (\<lambda>x. up_id x = up_id r) (user_progress d) then Inl UniquenessViolation
      else if list_ex (\<lambda>x. up_user_id x = up_user_id r \<and> up_quest_type x = up_quest_type r)
                      (user_progress d) then Inl UniquenessViolation
      else if \<not> user_exists d (up_user_id r) then Inl ForeignKeyViolation
      else Inr (d\<lparr>user_progress := user_progress d @ [r]\<rparr>))"

definition table_insert_user_saved_items :: "user_saved_item \<Rightarrow> db \<Rightarrow> db_error + db" where
  "table_insert_user_saved_items r d =
     (if list_ex (\<lambda>x. usi_id x = usi_id r) (user_saved_items d) then Inl UniquenessViolation
      else if list_ex (\<lambda>x. usi_user_id x = usi_user_id r \<and> usi_item_type x = usi_item_type r
                            \<and> usi_item_id x = usi_item_id r)
                      (user_saved_items d) then Inl UniquenessViolation
      else if \<not> user_exists d (usi_user_id r) then Inl ForeignKeyViolation
      else Inr (d\<lparr>user_saved_items := user_saved_items d @ [r]\<rparr>))"

text \<open>
  One \<open>UPDATE\<close> statement over a table, row by row in heap order. \<open>tgt\<close> selects the rows
  (the \<open>WHERE\<close> clause and the policy's \<open>USING\<close>), \<open>new\<close> builds the new row (the \<open>SET\<close>
  clause, then the \<open>BEFORE UPDATE\<close> trigger), \<open>chk\<close> is the policy check on the new row,
  \<open>uniq\<close> the unique indexes against the other rows as they stand, \<open>fk\<close> the row's own
  foreign keys. The first failure ends the statement.
\<close>

fun update_rows ::
  "('r \<Rightarrow> bool) \<Rightarrow> ('r \<Rightarrow> 'r) \<Rightarrow> ('r \<Rightarrow> bool) \<Rightarrow> ('r list \<Rightarrow> 'r \<Rightarrow> bool) \<Rightarrow> ('r \<Rightarrow> 'r \<Rightarrow> bool)
     \<Rightarrow> 'r list \<Rightarrow> 'r list \<Rightarrow> db_error + 'r list" where
  "update_rows tgt new chk uniq fk prev [] = Inr prev"
| "update_rows tgt new chk uniq fk prev (r # rs) =
     (if \<not> tgt r then update_rows tgt new chk uniq fk (prev @ [r]) rs
      else if \<not> chk (new r) then Inl AuthorizationDenied
      else if \<not> uniq (prev @ rs) (new r) then Inl UniquenessViolation
      else if \<not> fk r (new r) then Inl ForeignKeyViolation
      else update_rows tgt new chk uniq fk (prev @ [new r]) rs)"

section \<open>Triggers\<close>

text \<open>
  \<open>handle_updated_at\<close>: \<open>NEW.updated_at = NOW(); RETURN NEW\<close>. One function serves three
  tables, so it takes the table's \<open>updated_at\<close> column as the record's update function.
  \<open>NOW()\<close> is the time of the transaction, an input of the statement.
\<close>

definition handle_updated_at ::
  "((timestamptz option \<Rightarrow> timestamptz option) \<Rightarrow> 'r \<Rightarrow> 'r) \<Rightarrow> timestamptz \<Rightarrow> 'r \<Rightarrow> 'r" where
  "handle_updated_at updated_at_column now new = updated_at_column (\<lambda>_. Some now) new"

definition set_updated_at_profiles :: "timestamptz \<Rightarrow> profile \<Rightarrow> profile" where
  "set_updated_at_profiles = handle_updated_at p_updated_at_update"

definition set_updated_at_conversations :: "timestamptz \<Rightarrow> chat_conversation \<Rightarrow> chat_conversation" where
  "set_updated_at_conversations = handle_updated_at cc_updated_at_update"

definition set_updated_at_progress :: "timestamptz \<Rightarrow> user_progress_row \<Rightarrow> user_progress_row" where
  "set_updated_at_progress = handle_updated_at up_updated_at_update"

text \<open>The operator \<open>->>\<close> with a text key, and \<open>COALESCE\<close> of two arguments.\<close>

definition json_get_text :: "jsonb option \<Rightarrow> txt_col \<Rightarrow> txt_col option" where
  "json_get_text j k =
     (case j of
        Some (JObject members) \<Rightarrow>
          (case map_of members k of
             Some (JString t) \<Rightarrow> Some t
           | Some (JOther t) \<Rightarrow> Some t
           | Some JNull \<Rightarrow> None
           | None \<Rightarrow> None)
      | Some JNotObject \<Rightarrow> None
      | None \<Rightarrow> None)"

definition coalesce :: "'a option \<Rightarrow> 'a \<Rightarrow> 'a" where
  "coalesce a b = (case a of Some x \<Rightarrow> x | None \<Rightarrow> b)"

text \<open>
  \<open>handle_new_user\<close>: \<open>INSERT INTO public.profiles (id, full_name) VALUES (NEW.id,
  COALESCE(NEW.raw_user_meta_data->>'full_name', ''))\<close>; the other columns take the
  defaults of \<open>CREATE TABLE\<close>. The function is \<open>SECURITY DEFINER\<close>: it runs as the owner of
  the table, to whom row level security does not apply (it is enabled, not forced), so the
  insert is the table-level one. There is no \<open>ON CONFLICT\<close> clause.
\<close>

definition handle_new_user :: "timestamptz \<Rightarrow> auth_user \<Rightarrow> db \<Rightarrow> db_error + db" where
  "handle_new_user now new d =
     table_insert_profiles
       \<lparr>p_id = au_id new,
        p_full_name = Some (coalesce (json_get_text (au_raw_user_meta_data new) ''full_name'') ''''),
        p_phone = None,
        p_preferred_language = Some ''en'',
        p_education_level = None,
        p_interests = None,
        p_location = None,
        p_created_at = Some now,
        p_updated_at = Some now\<rparr> d"

text \<open>
  Creating a principal is an insert into \<open>auth.users\<close>; the trigger \<open>on_auth_user_created\<close>
  (\<open>AFTER INSERT ... FOR EACH ROW\<close>) runs \<open>handle_new_user\<close> in the same statement, and an
  error of the trigger is an error of the statement.
\<close>

definition insert_into_auth_users :: "timestamptz \<Rightarrow> auth_user \<Rightarrow> db \<Rightarrow> db_error + db" where
  "insert_into_auth_users now u d =
     (if user_exists d (au_id u) then Inl UniquenessViolation
      else handle_new_user now u (d\<lparr>auth_users := auth_users d @ [u]\<rparr>))"

text \<open>Deleting a principal: four foreign keys on \<open>auth.users(id)\<close> are \<open>ON DELETE CASCADE\<close>,
  and the conversations deleted that way take their messages with them.\<close>

definition delete_from_auth_users :: "uuid \<Rightarrow> db \<Rightarrow> db" where
  "delete_from_auth_users u d =
     d\<lparr>auth_users := filter (\<lambda>x. au_id x \<noteq> u) (auth_users d),
       profiles := filter (\<lambda>x. p_id x \<noteq> u) (profiles d),
       chat_conversations := filter (\<lambda>x. cc_user_id x \<noteq> u) (chat_conversations d),
       chat_messages :=
         filter (\<lambda>m. \<not> list_ex (\<lambda>c. cc_user_id c = u \<and> cc_id c = cm_conversation_id m)
                                 (chat_conversations d))
                (chat_messages d),
       user_progress := filter (\<lambda>x. up_user_id x \<noteq> u) (user_progress d),
       user_saved_items := filter (\<lambda>x. usi_user_id x \<noteq> u) (user_saved_items d)\<rparr>"

section \<open>Statements of a session\<close>

text \<open>
  What a session's statement does to a table under the policies. \<open>SELECT\<close> returns the
  visible rows that satisfy the \<open>WHERE\<close> clause \<open>w\<close>. \<open>INSERT\<close> is refused when the policy
  check fails on the new row, before any constraint is looked at. \<open>UPDATE\<close> and \<open>DELETE\<close>
  touch the rows that satisfy \<open>w\<close> and are visible to the command, and pass over the others
  in silence. Where a table has an \<open>UPDATE\<close> or \<open>DELETE\<close> policy, its \<open>SELECT\<close> policy has
  the same expression, so asking for both, as the database does for a statement that reads
  the row, changes nothing.
\<close>

subsection \<open>profiles\<close>

definition select_from_profiles :: "session \<Rightarrow> (profile \<Rightarrow> bool) \<Rightarrow> db \<Rightarrow> profile list" where
  "select_from_profiles s w d = filter w (rls_select profiles_policies s d (profiles d))"

definition insert_into_profiles :: "session \<Rightarrow> profile \<Rightarrow> db \<Rightarrow> db_error + db" where
  "insert_into_profiles s r d =
     (if \<not> permits profiles_policies s INSERT d r then Inl AuthorizationDenied
      else table_insert_profiles r d)"

definition update_profiles ::
  "session \<Rightarrow> timestamptz \<Rightarrow> (profile \<Rightarrow> bool) \<Rightarrow> (profile \<Rightarrow> profile) \<Rightarrow> db \<Rightarrow> db_error + db" where
  "update_profiles s now w f d =
     (case update_rows (\<lambda>r. w r \<and> permits profiles_policies s UPDATE d r)
                       (\<lambda>r. set_updated_at_profiles now (f r))
                       (check_passes profiles_policies s UPDATE d)
                       (\<lambda>others n. \<not> list_ex (\<lambda>x. p_id x = p_id n) others)
                       (\<lambda>old n. p_id n = p_id old \<or> user_exists d (p_id n))
                       [] (profiles d) of
        Inl e \<Rightarrow> Inl e
      | Inr rows \<Rightarrow> Inr (d\<lparr>profiles := rows\<rparr>))"

definition delete_from_profiles :: "session \<Rightarrow> (profile \<Rightarrow> bool) \<Rightarrow> db \<Rightarrow> db" where
  "delete_from_profiles s w d =
     d\<lparr>profiles := filter (\<lambda>r. \<not> (w r \<and> permits profiles_policies s DELETE d r)) (profiles d)\<rparr>"

subsection \<open>chat_conversations\<close>

definition select_from_chat_conversations ::
  "session \<Rightarrow> (chat_conversation \<Rightarrow> bool) \<Rightarrow> db \<Rightarrow> chat_conversation list" where
  "select_from_chat_conversations s w d =
     filter w (rls_select chat_conversations_policies s d (chat_conversations d))"

definition insert_into_chat_conversations ::
  "session \<Rightarrow> chat_conversation \<Rightarrow> db \<Rightarrow> db_error + db" where
  "insert_into_chat_conversations s r d =
     (if \<not> permits chat_conversations_policies s INSERT d r then Inl AuthorizationDenied
      else table_insert_chat_conversations r d)"

text \<open>
  The foreign key of \<open>chat_messages.conversation_id\<close> has no \<open>ON UPDATE\<close> action: at the end
  of the statement a message whose conversation's \<open>id\<close> was changed, with no row under the
  old \<open>id\<close> now, is a foreign key violation.
\<close>

definition update_chat_conversations ::
  "session \<Rightarrow> timestamptz \<Rightarrow> (chat_conversation \<Rightarrow> bool) \<Rightarrow> (chat_conversation \<Rightarrow> chat_conversation)
     \<Rightarrow> db \<Rightarrow> db_error + db" where
  "update_chat_conversations s now w f d =
     (case update_rows (\<lambda>r. w r \<and> permits chat_conversations_policies s UPDATE d r)
                       (\<lambda>r. set_updated_at_conversations now (f r))
                       (check_passes chat_conversations_policies s UPDATE d)
                       (\<lambda>others n. \<not> list_ex (\<lambda>x. cc_id x = cc_id n) others)
                       (\<lambda>old n. cc_user_id n = cc_user_id old \<or> user_exists d (cc_user_id n))
                       [] (chat_conversations d) of
        Inl e \<Rightarrow> Inl e
      | Inr rows \<Rightarrow>
          (if list_all (\<lambda>m. conversation_exists (chat_conversations d) (cm_conversation_id m)
                              \<longrightarrow> conversation_exists rows (cm_conversation_id m))
                       (chat_messages d)
           then Inr (d\<lparr>chat_conversations := rows\<rparr>)
           else Inl ForeignKeyViolation))"

text \<open>\<open>ON DELETE CASCADE\<close>: the messages of a deleted conversation go with it.\<close>

definition delete_from_chat_conversations ::
  "session \<Rightarrow> (chat_conversation \<Rightarrow> bool) \<Rightarrow> db \<Rightarrow> db" where
  "delete_from_chat_conversations s w d =
     d\<lparr>chat_conversations :=
         filter (\<lambda>r. \<not> (w r \<and> permits chat_conversations_policies s DELETE d r))
                (chat_conversations d),
       chat_messages :=
         filter (\<lambda>m. \<not> list_ex (\<lambda>c. (w c \<and> permits chat_conversations_policies s DELETE d c)
                                      \<and> cc_id c = cm_conversation_id m)
                                 (chat_conversations d))
                (chat_messages d)\<rparr>"

subsection \<open>chat_messages\<close>

definition select_from_chat_messages ::
  "session \<Rightarrow> (chat_message \<Rightarrow> bool) \<Rightarrow> db \<Rightarrow> chat_message list" where
  "select_from_chat_messages s w d =
     filter w (rls_select chat_messages_policies s d (chat_messages d))"

definition insert_into_chat_messages :: "session \<Rightarrow> chat_message \<Rightarrow> db \<Rightarrow> db_error + db" where
  "insert_into_chat_messages s r d =
     (if \<not> permits chat_messages_policies s INSERT d r then Inl AuthorizationDenied
      else table_insert_chat_messages r d)"

definition update_chat_messages ::
  "session \<Rightarrow> (chat_message \<Rightarrow> bool) \<Rightarrow> (chat_message \<Rightarrow> chat_message) \<Rightarrow> db \<Rightarrow> db_error + db" where
  "update_chat_messages s w f d =
     (case update_rows (\<lambda>r. w r \<and> permits chat_messages_policies s UPDATE d r)
                       f
                       (check_passes chat_messages_policies s UPDATE d)
                       (\<lambda>others n. \<not> list_ex (\<lambda>x. cm_id x = cm_id n) others)
                       (\<lambda>old n. cm_conversation_id n = cm_conversation_id old
                                 \<or> conversation_exists (chat_conversations d) (cm_conversation_id n))
                       [] (chat_messages d) of
        Inl e \<Rightarrow> Inl e
      | Inr rows \<Rightarrow> Inr (d\<lparr>chat_messages := rows\<rparr>))"

definition delete_from_chat_messages :: "session \<Rightarrow> (chat_message \<Rightarrow> bool) \<Rightarrow> db \<Rightarrow> db" where
  "delete_from_chat_messages s w d =
     d\<lparr>chat_messages :=
         filter (\<lambda>r. \<not> (w r \<and> permits chat_messages_policies s DELETE d r)) (chat_messages d)\<rparr>"

subsection \<open>user_progress\<close>

definition select_from_user_progress ::
  "session \<Rightarrow> (user_progress_row \<Rightarrow> bool) \<Rightarrow> db \<Rightarrow> user_progress_row list" where
  "select_from_user_progress s w d =
     filter w (rls_select user_progress_policies s d (user_progress d))"

definition insert_into_user_progress ::
  "session \<Rightarrow> user_progress_row \<Rightarrow> db \<Rightarrow> db_error + db" where
  "insert_into_user_progress s r d =
     (if \<not> permits user_progress_policies s INSERT d r then Inl AuthorizationDenied
      else table_insert_user_progress r d)"

definition update_user_progress ::
  "session \<Rightarrow> timestamptz \<Rightarrow> (user_progress_row \<Rightarrow> bool) \<Rightarrow> (user_progress_row \<Rightarrow> user_progress_row)
     \<Rightarrow> db \<Rightarrow> db_error + db" where
  "update_user_progress s now w f d =
     (case update_rows (\<lambda>r. w r \<and> permits user_progress_policies s UPDATE d r)
                       (\<lambda>r. set_updated_at_progress now (f r))
                       (check_passes user_progress_policies s UPDATE d)
                       (\<lambda>others n. \<not> list_ex (\<lambda>x. up_id x = up_id n
                                      \<or> (up_user_id x = up_user_id n \<and> up_quest_type x = up_quest_type n))
                                    others)
                       (\<lambda>old n. up_user_id n = up_user_id old \<or> user_exists d (up_user_id n))
                       [] (user_progress d) of
        Inl e \<Rightarrow> Inl e
      | Inr rows \<Rightarrow> Inr (d\<lparr>user_progress := rows\<rparr>))"

definition delete_from_user_progress ::
  "session \<Rightarrow> (user_progress_row \<Rightarrow> bool) \<Rightarrow> db \<Rightarrow> db" where
  "delete_from_user_progress s w d =
     d\<lparr>user_progress :=
         filter (\<lambda>r. \<not> (w r \<and> permits user_progress_policies s DELETE d r)) (user_progress d)\<rparr>"

subsection \<open>user_saved_items\<close>

definition select_from_user_saved_items ::
  "session \<Rightarrow> (user_saved_item \<Rightarrow> bool) \<Rightarrow> db \<Rightarrow> user_saved_item list" where
  "select_from_user_saved_items s w d =
     filter w (rls_select user_saved_items_policies s d (user_saved_items d))"

definition insert_into_user_saved_items ::
  "session \<Rightarrow> user_saved_item \<Rightarrow> db \<Rightarrow> db_error + db" where
  "insert_into_user_saved_items s r d =
     (if \<not> permits user_saved_items_policies s INSERT d r then Inl AuthorizationDenied
      else table_insert_user_saved_items r d)"

definition update_user_saved_items ::
  "session \<Rightarrow> (user_saved_item \<Rightarrow> bool) \<Rightarrow> (user_saved_item \<Rightarrow> user_saved_item) \<Rightarrow> db \<Rightarrow> db_error + db" where
  "update_user_saved_items s w f d =
     (case update_rows (\<lambda>r. w r \<and> permits user_saved_items_policies s UPDATE d r)
                       f
                       (check_passes user_saved_items_policies s UPDATE d)
                       (\<lambda>others n. \<not> list_ex (\<lambda>x. usi_id x = usi_id n
                                      \<or> (usi_user_id x = usi_user_id n \<and> usi_item_type x = usi_item_type n
                                          \<and> usi_item_id x = usi_item_id n))
                                    others)
                       (\<lambda>old n. usi_user_id n = usi_user_id old \<or> user_exists d (usi_user_id n))
                       [] (user_saved_items d) of
        Inl e \<Rightarrow> Inl e
      | Inr rows \<Rightarrow> Inr (d\<lparr>user_saved_items := rows\<rparr>))"

definition delete_from_user_saved_items ::
  "session \<Rightarrow> (user_saved_item \<Rightarrow> bool) \<Rightarrow> db \<Rightarrow> db" where
  "delete_from_user_saved_items s w d =
     d\<lparr>user_saved_items :=
         filter (\<lambda>r. \<not> (w r \<and> permits user_saved_items_policies s DELETE d r))
                (user_saved_items d)\<rparr>"

subsection \<open>Reference tables\<close>

definition select_from_colleges :: "session \<Rightarrow> (college \<Rightarrow> bool) \<Rightarrow> db \<Rightarrow> college list" where
  "select_from_colleges s w d = filter w (rls_select colleges_policies s d (colleges d))"

definition select_from_scholarships ::
  "session \<Rightarrow> (scholarship \<Rightarrow> bool) \<Rightarrow> db \<Rightarrow> scholarship list" where
  "select_from_scholarships s w d =
     filter w (rls_select scholarships_policies s d (scholarships d))"

definition select_from_career_paths ::
  "session \<Rightarrow> (career_path \<Rightarrow> bool) \<Rightarrow> db \<Rightarrow> career_path list" where
  "select_from_career_paths s w d =
     filter w (rls_select career_paths_policies s d (career_paths d))"

section \<open>Sequences of statements\<close>

text \<open>
  The statements that write: the two on \<open>auth.users\<close> (issued by the authentication
  service) and insert, update and delete on each of the five user-scoped tables (issued
  by a session). A statement carries its \<open>WHERE\<close> clause as a predicate on rows and its
  \<open>SET\<close> clause as a function on rows.
\<close>

datatype statement =
    InsertAuthUser auth_user
  | DeleteAuthUser uuid
  | InsertProfile profile
  | UpdateProfiles "profile \<Rightarrow> bool" "profile \<Rightarrow> profile"
  | DeleteProfiles "profile \<Rightarrow> bool"
  | InsertConversation chat_conversation
  | UpdateConversations "chat_conversation \<Rightarrow> bool" "chat_conversation \<Rightarrow> chat_conversation"
  | DeleteConversations "chat_conversation \<Rightarrow> bool"
  | InsertMessage chat_message
  | UpdateMessages "chat_message \<Rightarrow> bool" "chat_message \<Rightarrow> chat_message"
  | DeleteMessages "chat_message \<Rightarrow> bool"
  | InsertProgress user_progress_row
  | UpdateProgress "user_progress_row \<Rightarrow> bool" "user_progress_row \<Rightarrow> user_progress_row"
  | DeleteProgress "user_progress_row \<Rightarrow> bool"
  | InsertSavedItem user_saved_item
  | UpdateSavedItems "user_saved_item \<Rightarrow> bool" "user_saved_item \<Rightarrow> user_saved_item"
  | DeleteSavedItems "user_saved_item \<Rightarrow> bool"

fun execute :: "session \<Rightarrow> timestamptz \<Rightarrow> statement \<Rightarrow> db \<Rightarrow> db_error + db" where
  "execute s now (InsertAuthUser u) d = insert_into_auth_users now u d"
| "execute s now (DeleteAuthUser u) d = Inr (delete_from_auth_users u d)"
| "execute s now (InsertProfile r) d = insert_into_profiles s r d"
| "execute s now (UpdateProfiles w f) d = update_profiles s now w f d"
| "execute s now (DeleteProfiles w) d = Inr (delete_from_profiles s w d)"
| "execute s now (InsertConversation r) d = insert_into_chat_conversations s r d"
| "execute s now (UpdateConversations w f) d = update_chat_conversations s now w f d"
| "execute s now (DeleteConversations w) d = Inr (delete_from_chat_conversations s w d)"
| "execute s now (InsertMessage r) d = insert_into_chat_messages s r d"
| "execute s now (UpdateMessages w f) d = update_chat_messages s w f d"
| "execute s now (DeleteMessages w) d = Inr (delete_from_chat_messages s w d)"
| "execute s now (InsertProgress r) d = insert_into_user_progress s r d"
| "execute s now (UpdateProgress w f) d = update_user_progress s now w f d"
| "execute s now (DeleteProgress w) d = Inr (delete_from_user_progress s w d)"
| "execute s now (InsertSavedItem r) d = insert_into_user_saved_items s r d"
| "execute s now (UpdateSavedItems w f) d = update_user_saved_items s w f d"
| "execute s now (DeleteSavedItems w) d = Inr (delete_from_user_saved_items s w d)"

text \<open>The database after a statement: as the statement leaves it, or as it was when the
  statement ended with an error.\<close>

definition result_state :: "db \<Rightarrow> db_error + db \<Rightarrow> db" where
  "result_state d res = (case res of Inl e \<Rightarrow> d | Inr d' \<Rightarrow> d')"

definition after :: "session \<Rightarrow> timestamptz \<Rightarrow> statement \<Rightarrow> db \<Rightarrow> db" where
  "after s now st d = result_state d (execute s now st d)"

fun run :: "(session \<times> timestamptz \<times> statement) list \<Rightarrow> db \<Rightarrow> db" where
  "run [] d = d"
| "run ((s, now, st) # rest) d = run rest (after s now st d)"


section \<open>Ownership and referential integrity\<close>

text \<open>
  The owner of a row is the principal in its \<open>user_id\<close> column (\<open>id\<close> for a profile); a
  message belongs to the owner of the conversation its \<open>conversation_id\<close> names.
\<close>

definition message_owned_by :: "db \<Rightarrow> uuid \<Rightarrow> chat_message \<Rightarrow> bool" where
  "message_owned_by d u m =
     list_ex (\<lambda>c. cc_id c = cm_conversation_id m \<and> cc_user_id c = u) (chat_conversations d)"

definition rows_owned_by ::
  "uuid \<Rightarrow> db \<Rightarrow> profile list \<times> chat_conversation list \<times> chat_message list
     \<times> user_progress_row list \<times> user_saved_item list" where
  "rows_owned_by u d =
     (filter (\<lambda>r. p_id r = u) (profiles d),
      filter (\<lambda>r. cc_user_id r = u) (chat_conversations d),
      filter (message_owned_by d u) (chat_messages d),
      filter (\<lambda>r. up_user_id r = u) (user_progress d),
      filter (\<lambda>r. usi_user_id r = u) (user_saved_items d))"

fun is_update_or_delete :: "statement \<Rightarrow> bool" where
  "is_update_or_delete (UpdateProfiles w f) = True"
| "is_update_or_delete (DeleteProfiles w) = True"
| "is_update_or_delete (UpdateConversations w f) = True"
| "is_update_or_delete (DeleteConversations w) = True"
| "is_update_or_delete (UpdateMessages w f) = True"
| "is_update_or_delete (DeleteMessages w) = True"
| "is_update_or_delete (UpdateProgress w f) = True"
| "is_update_or_delete (DeleteProgress w) = True"
| "is_update_or_delete (UpdateSavedItems w f) = True"
| "is_update_or_delete (DeleteSavedItems w) = True"
| "is_update_or_delete _ = False"

text \<open>The foreign key of \<open>chat_messages.conversation_id\<close> as a property of the database,
  and the rows of the three reference tables a saved item could point at.\<close>

definition messages_have_conversations :: "db \<Rightarrow> bool" where
  "messages_have_conversations d =
     list_all (\<lambda>m. conversation_exists (chat_conversations d) (cm_conversation_id m))
              (chat_messages d)"

definition reference_ids :: "db \<Rightarrow> uuid list" where
  "reference_ids d =
     map col_id (colleges d) @ map sch_id (scholarships d) @ map car_id (career_paths d)"

section \<open>A small database\<close>

text \<open>Two principals, 1 and 2, each with a profile, a conversation and a message in it;
  three scholarships, one active, one inactive, one with \<open>is_active\<close> NULL.\<close>

definition user1 :: auth_user where
  "user1 = \<lparr>au_id = 1,
            au_raw_user_meta_data = Some (JObject [(''full_name'', JString ''Asha'')])\<rparr>"

definition user2 :: auth_user where
  "user2 = \<lparr>au_id = 2, au_raw_user_meta_data = Some (JObject [])\<rparr>"

definition user3 :: auth_user where
  "user3 = \<lparr>au_id = 3,
            au_raw_user_meta_data = Some (JObject [(''full_name'', JString ''Ravi'')])\<rparr>"

definition profile1 :: profile where
  "profile1 = \<lparr>p_id = 1, p_full_name = Some ''Asha'', p_phone = None,
               p_preferred_language = Some ''en'', p_education_level = None,
               p_interests = None, p_location = None,
               p_created_at = Some 1000, p_updated_at = Some 1000\<rparr>"

definition profile2 :: profile where
  "profile2 = \<lparr>p_id = 2, p_full_name = Some '''', p_phone = None,
               p_preferred_language = Some ''en'', p_education_level = None,
               p_interests = None, p_location = None,
               p_created_at = Some 1001, p_updated_at = Some 1001\<rparr>"

definition college1 :: college where
  "college1 = \<lparr>col_id = 50, col_name = ''IIT Delhi'', col_type = ''engineering'',
               col_location = ''New Delhi'', col_state = ''Delhi'',
               col_fees_per_year = Some 200000, col_ranking = Some 1,
               col_admission_criteria = Some ''JEE Advanced, rank-based admission'',
               col_contact_info = None, col_created_at = Some 900\<rparr>"

definition scholarship1 :: scholarship where
  "scholarship1 = \<lparr>sch_id = 60, sch_title = ''National Merit Scholarship'',
                   sch_description = ''Merit-based scholarship'', sch_amount = 50000,
                   sch_eligibility_criteria = ''90%+ marks in 12th grade'',
                   sch_deadline = 20543, sch_application_link = Some ''https://scholarships.gov.in'',
                   sch_category = ''merit'', sch_is_active = Some True,
                   sch_created_at = Some 900\<rparr>"

definition scholarship2 :: scholarship where
  "scholarship2 = scholarship1\<lparr>sch_id := 61, sch_is_active := Some False\<rparr>"

definition scholarship3 :: scholarship where
  "scholarship3 = scholarship1\<lparr>sch_id := 62, sch_is_active := None\<rparr>"

definition career1 :: career_path where
  "career1 = \<lparr>car_id = 70, car_title = ''Software Engineer'',
              car_description = ''Design and develop software applications and systems'',
              car_required_education = ''B.Tech/B.E. in Computer Science or related field'',
              car_average_salary = Some 800000, car_job_outlook = None,
              car_skills_required = Some [''Programming'', ''Problem Solving''],
              car_related_courses = Some [''Computer Science''],
              car_created_at = Some 900\<rparr>"

definition conversation1 :: chat_conversation where
  "conversation1 = \<lparr>cc_id = 10, cc_user_id = 1, cc_title = Some ''Colleges'',
                    cc_language = Some ''en'', cc_created_at = Some 1100,
                    cc_updated_at = Some 1100\<rparr>"

definition conversation2 :: chat_conversation where
  "conversation2 = \<lparr>cc_id = 20, cc_user_id = 2, cc_title = None,
                    cc_language = Some ''hi'', cc_created_at = Some 1200,
                    cc_updated_at = Some 1200\<rparr>"

definition message1 :: chat_message where
  "message1 = \<lparr>cm_id = 100, cm_conversation_id = 10, cm_content = ''Which college?'',
               cm_is_user = True, cm_created_at = Some 1101\<rparr>"

definition message2 :: chat_message where
  "message2 = \<lparr>cm_id = 200, cm_conversation_id = 20, cm_content = ''Namaste'',
               cm_is_user = True, cm_created_at = Some 1201\<rparr>"

definition progress1 :: user_progress_row where
  "progress1 = \<lparr>up_id = 300, up_user_id = 1, up_quest_type = ''profile'',
                up_status = Some ''pending'', up_points = Some 0, up_metadata = None,
                up_completed_at = None, up_created_at = Some 1300,
                up_updated_at = Some 1300\<rparr>"

definition saved1 :: user_saved_item where
  "saved1 = \<lparr>usi_id = 400, usi_user_id = 1, usi_item_type = ''college'', usi_item_id = 50,
             usi_notes = None, usi_created_at = Some 1400\<rparr>"

definition db0 :: db where
  "db0 = \<lparr>auth_users = [user1, user2],
          profiles = [profile1, profile2],
          colleges = [college1],
          scholarships = [scholarship1, scholarship2, scholarship3],
          career_paths = [career1],
          chat_conversations = [conversation1, conversation2],
          chat_messages = [message1, message2],
          user_progress = [progress1],
          user_saved_items = [saved1]\<rparr>"

text \<open>The same database once principal 3 is in \<open>auth.users\<close>, and the profile the signup
  trigger makes for it at time 2000.\<close>

definition db1 :: db where
  "db1 = db0\<lparr>auth_users := [user1, user2, user3]\<rparr>"

definition profile3 :: profile where
  "profile3 = \<lparr>p_id = 3, p_full_name = Some ''Ravi'', p_phone = None,
               p_preferred_language = Some ''en'', p_education_level = None,
               p_interests = None, p_location = None,
               p_created_at = Some 2000, p_updated_at = Some 2000\<rparr>"

definition session1 :: session where
  "session1 = \<lparr>sess_role = authenticated, auth_uid = Some 1\<rparr>"

definition session2 :: session where
  "session2 = \<lparr>sess_role = authenticated, auth_uid = Some 2\<rparr>"

lemmas example_defs =
  user1_def user2_def user3_def profile1_def profile2_def college1_def scholarship1_def
  scholarship2_def scholarship3_def career1_def conversation1_def conversation2_def
  message1_def message2_def progress1_def saved1_def db0_def db1_def profile3_def
  session1_def session2_def


section \<open>What the policies decide\<close>

lemma sql_eq_true: "sql_eq a (Some y) = Some True \<longleftrightarrow> a = Some y"
  by (auto simp: sql_eq_def split: option.splits)

lemma permits_profiles:
  "permits profiles_policies s c d r \<longleftrightarrow> c \<noteq> DELETE \<and> auth_uid s = Some (p_id r)"
  by (cases c) (auto simp: permits_def using_passes_def check_passes_def profiles_policies_def
      applies_def sql_eq_true)

lemma permits_chat_conversations:
  "permits chat_conversations_policies s c d r \<longleftrightarrow> auth_uid s = Some (cc_user_id r)"
  by (cases c) (auto simp: permits_def using_passes_def check_passes_def
      chat_conversations_policies_def applies_def sql_eq_true)

lemma permits_user_progress:
  "permits user_progress_policies s c d r \<longleftrightarrow> c \<noteq> DELETE \<and> auth_uid s = Some (up_user_id r)"
  by (cases c) (auto simp: permits_def using_passes_def check_passes_def
      user_progress_policies_def applies_def sql_eq_true)

lemma permits_user_saved_items:
  "permits user_saved_items_policies s c d r \<longleftrightarrow>
     c \<noteq> UPDATE \<and> auth_uid s = Some (usi_user_id r)"
  by (cases c) (auto simp: permits_def using_passes_def check_passes_def
      user_saved_items_policies_def applies_def sql_eq_true)

text \<open>The subquery of the \<open>chat_messages\<close> policies reads \<open>chat_conversations\<close> through
  that table's \<open>SELECT\<close> policy; its \<open>WHERE\<close> clause asks for the same owner, so the policy
  hides nothing the subquery looks for.\<close>

lemma owns_parent_conversation_iff:
  "owns_parent_conversation s d m = Some True \<longleftrightarrow>
     (\<exists>c \<in> set (chat_conversations d).
        cc_id c = cm_conversation_id m \<and> auth_uid s = Some (cc_user_id c))"
  by (auto simp: owns_parent_conversation_def list_ex_iff rls_select_def
      permits_chat_conversations sql_and_def sql_eq_def split: option.splits if_splits)

lemma permits_chat_messages:
  "permits chat_messages_policies s c d m \<longleftrightarrow>
     (c = SELECT \<or> c = INSERT) \<and>
     (\<exists>cv \<in> set (chat_conversations d).
        cc_id cv = cm_conversation_id m \<and> auth_uid s = Some (cc_user_id cv))"
  by (cases c) (simp_all add: permits_def using_passes_def check_passes_def
      chat_messages_policies_def applies_def owns_parent_conversation_iff)

lemma permits_scholarships:
  "permits scholarships_policies s c d r \<longleftrightarrow>
     c = SELECT \<and> sess_role s = authenticated \<and> sch_is_active r = Some True"
  by (cases c) (auto simp: permits_def using_passes_def check_passes_def
      scholarships_policies_def applies_def sql_eq_true)

text \<open>An \<open>UPDATE\<close> policy without \<open>WITH CHECK\<close> checks the new row with its \<open>USING\<close>
  expression.\<close>

lemma check_update_profiles:
  "check_passes profiles_policies s UPDATE d r \<longleftrightarrow> auth_uid s = Some (p_id r)"
  by (auto simp: check_passes_def profiles_policies_def applies_def sql_eq_true)

lemma check_update_chat_conversations:
  "check_passes chat_conversations_policies s UPDATE d r \<longleftrightarrow> auth_uid s = Some (cc_user_id r)"
  by (auto simp: check_passes_def chat_conversations_policies_def applies_def sql_eq_true)

lemma check_update_user_progress:
  "check_passes user_progress_policies s UPDATE d r \<longleftrightarrow> auth_uid s = Some (up_user_id r)"
  by (auto simp: check_passes_def user_progress_policies_def applies_def sql_eq_true)

section \<open>What an update statement leaves\<close>

lemma update_rows_result:
  "update_rows tgt new chk uniq fk prev todo = Inr res \<Longrightarrow>
     res = prev @ map (\<lambda>r. if tgt r then new r else r) todo"
  by (induction todo arbitrary: prev) (force split: if_splits)+

lemma update_rows_checked:
  "update_rows tgt new chk uniq fk prev todo = Inr res \<Longrightarrow> r \<in> set todo \<Longrightarrow> tgt r
     \<Longrightarrow> chk (new r)"
  by (induction todo arbitrary: prev) (force split: if_splits)+

lemma update_rows_untargeted:
  "\<forall>r \<in> set todo. \<not> tgt r \<Longrightarrow> update_rows tgt new chk uniq fk prev todo = Inr (prev @ todo)"
  by (induction todo arbitrary: prev) auto

lemma update_profiles_rows:
  "update_profiles s now w f d = Inr d' \<Longrightarrow>
     profiles d' = map (\<lambda>r. if w r \<and> auth_uid s = Some (p_id r)
                             then (f r)\<lparr>p_updated_at := Some now\<rparr> else r) (profiles d)"
  by (auto simp: update_profiles_def permits_profiles set_updated_at_profiles_def
      handle_updated_at_def dest!: update_rows_result split: sum.splits)

lemma update_chat_conversations_rows:
  "update_chat_conversations s now w f d = Inr d' \<Longrightarrow>
     chat_conversations d' =
       map (\<lambda>r. if w r \<and> auth_uid s = Some (cc_user_id r)
                 then (f r)\<lparr>cc_updated_at := Some now\<rparr> else r) (chat_conversations d)"
  by (auto simp: update_chat_conversations_def permits_chat_conversations
      set_updated_at_conversations_def handle_updated_at_def
      dest!: update_rows_result split: sum.splits if_splits)

lemma update_user_progress_rows:
  "update_user_progress s now w f d = Inr d' \<Longrightarrow>
     user_progress d' =
       map (\<lambda>r. if w r \<and> auth_uid s = Some (up_user_id r)
                 then (f r)\<lparr>up_updated_at := Some now\<rparr> else r) (user_progress d)"
  by (auto simp: update_user_progress_def permits_user_progress set_updated_at_progress_def
      handle_updated_at_def dest!: update_rows_result split: sum.splits)

section \<open>What an update statement asks of the new row\<close>

text \<open>The authorization error of an \<open>UPDATE\<close> comes from the policy check on a new row and
  from nowhere else.\<close>

lemma update_rows_denied:
  "update_rows tgt new chk uniq fk prev todo = Inl AuthorizationDenied \<Longrightarrow>
     \<exists>r \<in> set todo. tgt r \<and> \<not> chk (new r)"
  by (induction todo arbitrary: prev) (force split: if_splits)+

lemma update_profiles_new_rows:
  assumes "update_profiles s now w f d = Inr d'"
    and "r \<in> set (profiles d)" and "w r" and "auth_uid s = Some (p_id r)"
  shows "auth_uid s = Some (p_id (f r))"
proof -
  obtain rows where rows:
    "update_rows (\<lambda>r. w r \<and> permits profiles_policies s UPDATE d r)
       (\<lambda>r. set_updated_at_profiles now (f r)) (check_passes profiles_policies s UPDATE d)
       (\<lambda>others n. \<not> list_ex (\<lambda>x. p_id x = p_id n) others)
       (\<lambda>old n. p_id n = p_id old \<or> user_exists d (p_id n)) [] (profiles d) = Inr rows"
    using assms(1) by (auto simp: update_profiles_def split: sum.splits)
  have "check_passes profiles_policies s UPDATE d (set_updated_at_profiles now (f r))"
    using update_rows_checked [OF rows assms(2)] assms(3,4) by (simp add: permits_profiles)
  then show ?thesis
    by (simp add: check_update_profiles set_updated_at_profiles_def handle_updated_at_def)
qed

lemma update_profiles_denied:
  assumes "update_profiles s now w f d = Inl AuthorizationDenied"
  shows "\<exists>r \<in> set (profiles d).
           w r \<and> auth_uid s = Some (p_id r) \<and> auth_uid s \<noteq> Some (p_id (f r))"
proof -
  have "update_rows (\<lambda>r. w r \<and> permits profiles_policies s UPDATE d r)
       (\<lambda>r. set_updated_at_profiles now (f r)) (check_passes profiles_policies s UPDATE d)
       (\<lambda>others n. \<not> list_ex (\<lambda>x. p_id x = p_id n) others)
       (\<lambda>old n. p_id n = p_id old \<or> user_exists d (p_id n)) [] (profiles d)
     = Inl AuthorizationDenied"
    using assms by (auto simp: update_profiles_def split: sum.splits)
  from update_rows_denied [OF this] show ?thesis
    by (simp add: permits_profiles check_update_profiles set_updated_at_profiles_def
        handle_updated_at_def)
qed

lemma update_chat_conversations_new_rows:
  assumes "update_chat_conversations s now w f d = Inr d'"
    and "r \<in> set (chat_conversations d)" and "w r" and "auth_uid s = Some (cc_user_id r)"
  shows "auth_uid s = Some (cc_user_id (f r))"
proof -
  obtain rows where rows:
    "update_rows (\<lambda>r. w r \<and> permits chat_conversations_policies s UPDATE d r)
       (\<lambda>r. set_updated_at_conversations now (f r))
       (check_passes chat_conversations_policies s UPDATE d)
       (\<lambda>others n. \<not> list_ex (\<lambda>x. cc_id x = cc_id n) others)
       (\<lambda>old n. cc_user_id n = cc_user_id old \<or> user_exists d (cc_user_id n))
       [] (chat_conversations d) = Inr rows"
    using assms(1) by (auto simp: update_chat_conversations_def split: sum.splits if_splits)
  have "check_passes chat_conversations_policies s UPDATE d
          (set_updated_at_conversations now (f r))"
    using update_rows_checked [OF rows assms(2)] assms(3,4)
    by (simp add: permits_chat_conversations)
  then show ?thesis
    by (simp add: check_update_chat_conversations set_updated_at_conversations_def
        handle_updated_at_def)
qed

lemma update_chat_conversations_denied:
  assumes "update_chat_conversations s now w f d = Inl AuthorizationDenied"
  shows "\<exists>r \<in> set (chat_conversations d).
           w r \<and> auth_uid s = Some (cc_user_id r) \<and> auth_uid s \<noteq> Some (cc_user_id (f r))"
proof -
  have "update_rows (\<lambda>r. w r \<and> permits chat_conversations_policies s UPDATE d r)
       (\<lambda>r. set_updated_at_conversations now (f r))
       (check_passes chat_conversations_policies s UPDATE d)
       (\<lambda>others n. \<not> list_ex (\<lambda>x. cc_id x = cc_id n) others)
       (\<lambda>old n. cc_user_id n = cc_user_id old \<or> user_exists d (cc_user_id n))
       [] (chat_conversations d)
     = Inl AuthorizationDenied"
    using assms by (auto simp: update_chat_conversations_def split: sum.splits if_splits)
  from update_rows_denied [OF this] show ?thesis
    by (simp add: permits_chat_conversations check_update_chat_conversations
        set_updated_at_conversations_def handle_updated_at_def)
qed

lemma update_user_progress_new_rows:
  assumes "update_user_progress s now w f d = Inr d'"
    and "r \<in> set (user_progress d)" and "w r" and "auth_uid s = Some (up_user_id r)"
  shows "auth_uid s = Some (up_user_id (f r))"
proof -
  obtain rows where rows:
    "update_rows (\<lambda>r. w r \<and> permits user_progress_policies s UPDATE d r)
       (\<lambda>r. set_updated_at_progress now (f r)) (check_passes user_progress_policies s UPDATE d)
       (\<lambda>others n. \<not> list_ex (\<lambda>x. up_id x = up_id n
                     \<or> (up_user_id x = up_user_id n \<and> up_quest_type x = up_quest_type n))
                   others)
       (\<lambda>old n. up_user_id n = up_user_id old \<or> user_exists d (up_user_id n))
       [] (user_progress d) = Inr rows"
    using assms(1) by (auto simp: update_user_progress_def split: sum.splits)
  have "check_passes user_progress_policies s UPDATE d (set_updated_at_progress now (f r))"
    using update_rows_checked [OF rows assms(2)] assms(3,4)
    by (simp add: permits_user_progress)
  then show ?thesis
    by (simp add: check_update_user_progress set_updated_at_progress_def
        handle_updated_at_def)
qed

lemma update_user_progress_denied:
  assumes "update_user_progress s now w f d = Inl AuthorizationDenied"
  shows "\<exists>r \<in> set (user_progress d).
           w r \<and> auth_uid s = Some (up_user_id r) \<and> auth_uid s \<noteq> Some (up_user_id (f r))"
proof -
  have "update_rows (\<lambda>r. w r \<and> permits user_progress_policies s UPDATE d r)
       (\<lambda>r. set_updated_at_progress now (f r)) (check_passes user_progress_policies s UPDATE d)
       (\<lambda>others n. \<not> list_ex (\<lambda>x. up_id x = up_id n
                     \<or> (up_user_id x = up_user_id n \<and> up_quest_type x = up_quest_type n))
                   others)
       (\<lambda>old n. up_user_id n = up_user_id old \<or> user_exists d (up_user_id n))
       [] (user_progress d)
     = Inl AuthorizationDenied"
    using assms by (auto simp: update_user_progress_def split: sum.splits)
  from update_rows_denied [OF this] show ?thesis
    by (simp add: permits_user_progress check_update_user_progress
        set_updated_at_progress_def handle_updated_at_def)
qed

lemma no_update_policy:
  "\<not> check_passes user_saved_items_policies s UPDATE d si"
  "\<not> check_passes chat_messages_policies s UPDATE d m"
  by (simp_all add: check_passes_def user_saved_items_policies_def chat_messages_policies_def
      applies_def)

section \<open>C1: the decision of the access-control layer\<close>

text \<open>
  C1, as the policies have it. The claim gives the owner every one of the four commands on
  the four tables with an owner column, and every command on a message of an own
  conversation. The migration declares no \<open>DELETE\<close> policy for \<open>profiles\<close> and
  \<open>user_progress\<close>, no \<open>UPDATE\<close> policy for \<open>user_saved_items\<close>, and for \<open>chat_messages\<close>
  only \<open>SELECT\<close> and \<open>INSERT\<close>; a command without a policy is denied to everyone, the owner
  included. And an \<open>UPDATE\<close> is decided on two rows, not one: the existing row must pass the
  policy to be touched at all, and the new row must pass it for the statement to go
  through.

  Amended claim, proved below. On \<open>profiles\<close> and \<open>user_progress\<close> the layer permits
  \<open>SELECT\<close> and \<open>INSERT\<close> exactly when the row's owner (\<open>id\<close>, resp. \<open>user_id\<close>) is the
  requesting principal, and never \<open>DELETE\<close>; on \<open>chat_conversations\<close> it permits \<open>SELECT\<close>,
  \<open>INSERT\<close> and \<open>DELETE\<close> exactly when \<open>user_id\<close> is the requesting principal; on
  \<open>user_saved_items\<close> it permits \<open>SELECT\<close>, \<open>INSERT\<close> and \<open>DELETE\<close> exactly when \<open>user_id\<close> is
  the requesting principal, and never \<open>UPDATE\<close>; on \<open>chat_messages\<close> it permits \<open>SELECT\<close> and
  \<open>INSERT\<close> exactly when a conversation with the message's \<open>conversation_id\<close> exists and is
  owned by the requesting principal, and never \<open>UPDATE\<close> or \<open>DELETE\<close>. An \<open>UPDATE\<close> on
  \<open>profiles\<close>, \<open>chat_conversations\<close> or \<open>user_progress\<close> is permitted exactly when both the
  existing row and the new row are owned by the requesting principal: an existing row is
  visible to the update exactly when its owner is the requester (any other row is passed
  over and stays as it was), a new row is accepted exactly when its owner is the requester,
  a statement that succeeds has changed only rows of the requester into rows of the
  requester, and a statement ends with the authorization error only when it would turn a
  row of the requester into a row of somebody else.
\<close>

theorem C1_policies_permit_the_owner_where_declared:
  "(permits profiles_policies s c d p \<longleftrightarrow>
      c \<in> {SELECT, INSERT, UPDATE} \<and> auth_uid s = Some (p_id p))
   \<and> (permits chat_conversations_policies s c d cv \<longleftrightarrow> auth_uid s = Some (cc_user_id cv))
   \<and> (permits user_progress_policies s c d up \<longleftrightarrow>
      c \<in> {SELECT, INSERT, UPDATE} \<and> auth_uid s = Some (up_user_id up))
   \<and> (permits user_saved_items_policies s c d si \<longleftrightarrow>
      c \<in> {SELECT, INSERT, DELETE} \<and> auth_uid s = Some (usi_user_id si))
   \<and> (permits chat_messages_policies s c d m \<longleftrightarrow>
      c \<in> {SELECT, INSERT} \<and>
      (\<exists>parent \<in> set (chat_conversations d).
         cc_id parent = cm_conversation_id m \<and> auth_uid s = Some (cc_user_id parent)))
   \<and> (check_passes profiles_policies s UPDATE d p' \<longleftrightarrow> auth_uid s = Some (p_id p'))
   \<and> (check_passes chat_conversations_policies s UPDATE d cv'
        \<longleftrightarrow> auth_uid s = Some (cc_user_id cv'))
   \<and> (check_passes user_progress_policies s UPDATE d up'
        \<longleftrightarrow> auth_uid s = Some (up_user_id up'))
   \<and> \<not> check_passes user_saved_items_policies s UPDATE d si'
   \<and> \<not> check_passes chat_messages_policies s UPDATE d m'
   \<and> (update_profiles s now wp fp d = Inr dp \<longrightarrow>
        profiles dp =
          map (\<lambda>r. if wp r \<and> auth_uid s = Some (p_id r)
                    then (fp r)\<lparr>p_updated_at := Some now\<rparr> else r) (profiles d)
        \<and> (\<forall>r \<in> set (profiles d). wp r \<and> auth_uid s = Some (p_id r)
              \<longrightarrow> auth_uid s = Some (p_id (fp r))))
   \<and> (update_profiles s now wp fp d = Inl AuthorizationDenied \<longrightarrow>
        (\<exists>r \<in> set (profiles d). wp r \<and> auth_uid s = Some (p_id r)
              \<and> auth_uid s \<noteq> Some (p_id (fp r))))
   \<and> (update_chat_conversations s now wc fc d = Inr dc \<longrightarrow>
        chat_conversations dc =
          map (\<lambda>r. if wc r \<and> auth_uid s = Some (cc_user_id r)
                    then (fc r)\<lparr>cc_updated_at := Some now\<rparr> else r) (chat_conversations d)
        \<and> (\<forall>r \<in> set (chat_conversations d). wc r \<and> auth_uid s = Some (cc_user_id r)
              \<longrightarrow> auth_uid s = Some (cc_user_id (fc r))))
   \<and> (update_chat_conversations s now wc fc d = Inl AuthorizationDenied \<longrightarrow>
        (\<exists>r \<in> set (chat_conversations d). wc r \<and> auth_uid s = Some (cc_user_id r)
              \<and> auth_uid s \<noteq> Some (cc_user_id (fc r))))
   \<and> (update_user_progress s now wu fu d = Inr du \<longrightarrow>
        user_progress du =
          map (\<lambda>r. if wu r \<and> auth_uid s = Some (up_user_id r)
                    then (fu r)\<lparr>up_updated_at := Some now\<rparr> else r) (user_progress d)
        \<and> (\<forall>r \<in> set (user_progress d). wu r \<and> auth_uid s = Some (up_user_id r)
              \<longrightarrow> auth_uid s = Some (up_user_id (fu r))))
   \<and> (update_user_progress s now wu fu d = Inl AuthorizationDenied \<longrightarrow>
        (\<exists>r \<in> set (user_progress d). wu r \<and> auth_uid s = Some (up_user_id r)
              \<and> auth_uid s \<noteq> Some (up_user_id (fu r))))"
proof -
  have cmds: "c \<noteq> DELETE \<longleftrightarrow> c \<in> {SELECT, INSERT, UPDATE}"
    "c \<noteq> UPDATE \<longleftrightarrow> c \<in> {SELECT, INSERT, DELETE}"
    "c = SELECT \<or> c = INSERT \<longleftrightarrow> c \<in> {SELECT, INSERT}"
    by (cases c; simp)+
  have existing:
    "permits profiles_policies s c d p \<longleftrightarrow>
       c \<in> {SELECT, INSERT, UPDATE} \<and> auth_uid s = Some (p_id p)"
    "permits chat_conversations_policies s c d cv \<longleftrightarrow> auth_uid s = Some (cc_user_id cv)"
    "permits user_progress_policies s c d up \<longleftrightarrow>
       c \<in> {SELECT, INSERT, UPDATE} \<and> auth_uid s = Some (up_user_id up)"
    "permits user_saved_items_policies s c d si \<longleftrightarrow>
       c \<in> {SELECT, INSERT, DELETE} \<and> auth_uid s = Some (usi_user_id si)"
    "permits chat_messages_policies s c d m \<longleftrightarrow>
       c \<in> {SELECT, INSERT} \<and>
       (\<exists>parent \<in> set (chat_conversations d).
          cc_id parent = cm_conversation_id m \<and> auth_uid s = Some (cc_user_id parent))"
    unfolding permits_profiles permits_chat_conversations permits_user_progress
      permits_user_saved_items permits_chat_messages cmds by simp_all
  have p_ok: "update_profiles s now wp fp d = Inr dp \<longrightarrow>
        profiles dp =
          map (\<lambda>r. if wp r \<and> auth_uid s = Some (p_id r)
                    then (fp r)\<lparr>p_updated_at := Some now\<rparr> else r) (profiles d)
        \<and> (\<forall>r \<in> set (profiles d). wp r \<and> auth_uid s = Some (p_id r)
              \<longrightarrow> auth_uid s = Some (p_id (fp r)))"
    using update_profiles_rows [of s now wp fp d dp]
      update_profiles_new_rows [of s now wp fp d dp] by blast
  have p_no: "update_profiles s now wp fp d = Inl AuthorizationDenied \<longrightarrow>
        (\<exists>r \<in> set (profiles d). wp r \<and> auth_uid s = Some (p_id r)
              \<and> auth_uid s \<noteq> Some (p_id (fp r)))"
    using update_profiles_denied [of s now wp fp d] by blast
  have c_ok: "update_chat_conversations s now wc fc d = Inr dc \<longrightarrow>
        chat_conversations dc =
          map (\<lambda>r. if wc r \<and> auth_uid s = Some (cc_user_id r)
                    then (fc r)\<lparr>cc_updated_at := Some now\<rparr> else r) (chat_conversations d)
        \<and> (\<forall>r \<in> set (chat_conversations d). wc r \<and> auth_uid s = Some (cc_user_id r)
              \<longrightarrow> auth_uid s = Some (cc_user_id (fc r)))"
    using update_chat_conversations_rows [of s now wc fc d dc]
      update_chat_conversations_new_rows [of s now wc fc d dc] by blast
  have c_no: "update_chat_conversations s now wc fc d = Inl AuthorizationDenied \<longrightarrow>
        (\<exists>r \<in> set (chat_conversations d). wc r \<and> auth_uid s = Some (cc_user_id r)
              \<and> auth_uid s \<noteq> Some (cc_user_id (fc r)))"
    using update_chat_conversations_denied [of s now wc fc d] by blast
  have u_ok: "update_user_progress s now wu fu d = Inr du \<longrightarrow>
        user_progress du =
          map (\<lambda>r. if wu r \<and> auth_uid s = Some (up_user_id r)
                    then (fu r)\<lparr>up_updated_at := Some now\<rparr> else r) (user_progress d)
        \<and> (\<forall>r \<in> set (user_progress d). wu r \<and> auth_uid s = Some (up_user_id r)
              \<longrightarrow> auth_uid s = Some (up_user_id (fu r)))"
    using update_user_progress_rows [of s now wu fu d du]
      update_user_progress_new_rows [of s now wu fu d du] by blast
  have u_no: "update_user_progress s now wu fu d = Inl AuthorizationDenied \<longrightarrow>
        (\<exists>r \<in> set (user_progress d). wu r \<and> auth_uid s = Some (up_user_id r)
              \<and> auth_uid s \<noteq> Some (up_user_id (fu r)))"
    using update_user_progress_denied [of s now wu fu d] by blast
  show ?thesis
    by (intro conjI existing check_update_profiles check_update_chat_conversations
        check_update_user_progress no_update_policy p_ok p_no c_ok c_no u_ok u_no)
qed

text \<open>At the small database: principal 1 may update but not delete its profile, principal 2
  may not touch it; principal 1 may delete its conversation, insert a message into it, and
  not delete that message. Principal 1 giving its conversation to principal 2 is refused
  on the new row; principal 2 taking it finds no row to update.\<close>

theorem C1_witness:
  "permits profiles_policies session1 UPDATE db0 profile1
   \<and> \<not> permits profiles_policies session1 DELETE db0 profile1
   \<and> \<not> permits profiles_policies session2 UPDATE db0 profile1
   \<and> permits chat_conversations_policies session1 DELETE db0 conversation1
   \<and> \<not> permits user_progress_policies session1 DELETE db0 progress1
   \<and> \<not> permits user_saved_items_policies session1 UPDATE db0 saved1
   \<and> permits chat_messages_policies session1 INSERT db0 message1
   \<and> \<not> permits chat_messages_policies session1 DELETE db0 message1
   \<and> \<not> permits chat_messages_policies session2 SELECT db0 message1
   \<and> permits chat_conversations_policies session1 UPDATE db0 conversation1
   \<and> \<not> check_passes chat_conversations_policies session1 UPDATE db0
         (conversation1\<lparr>cc_user_id := 2\<rparr>)
   \<and> update_chat_conversations session1 5000 (\<lambda>r. cc_id r = 10) (\<lambda>r. r\<lparr>cc_user_id := 2\<rparr>) db0
       = Inl AuthorizationDenied
   \<and> update_chat_conversations session2 5000 (\<lambda>r. cc_id r = 10) (\<lambda>r. r\<lparr>cc_user_id := 2\<rparr>) db0
       = Inr db0
   \<and> update_chat_conversations session1 5000 (\<lambda>r. cc_id r = 10) (\<lambda>r. r\<lparr>cc_title := None\<rparr>) db0
       = Inr (db0\<lparr>chat_conversations :=
                [conversation1\<lparr>cc_title := None, cc_updated_at := Some 5000\<rparr>, conversation2]\<rparr>)"
proof -
  have denied:
    "update_chat_conversations session1 5000 (\<lambda>r. cc_id r = 10) (\<lambda>r. r\<lparr>cc_user_id := 2\<rparr>) db0
       = Inl AuthorizationDenied"
    by (simp add: update_chat_conversations_def permits_chat_conversations
        check_update_chat_conversations set_updated_at_conversations_def
        handle_updated_at_def example_defs)
  have untouched:
    "update_chat_conversations session2 5000 (\<lambda>r. cc_id r = 10) (\<lambda>r. r\<lparr>cc_user_id := 2\<rparr>) db0
       = Inr db0"
    by (simp add: update_chat_conversations_def permits_chat_conversations
        check_update_chat_conversations conversation_exists_def
        set_updated_at_conversations_def handle_updated_at_def example_defs)
  have updated:
    "update_chat_conversations session1 5000 (\<lambda>r. cc_id r = 10) (\<lambda>r. r\<lparr>cc_title := None\<rparr>) db0
       = Inr (db0\<lparr>chat_conversations :=
                [conversation1\<lparr>cc_title := None, cc_updated_at := Some 5000\<rparr>, conversation2]\<rparr>)"
    by (simp add: update_chat_conversations_def permits_chat_conversations
        check_update_chat_conversations conversation_exists_def
        set_updated_at_conversations_def handle_updated_at_def user_exists_def example_defs)
  show ?thesis
    using denied untouched updated
      C1_policies_permit_the_owner_where_declared
        [where s = session1 and c = UPDATE and d = db0 and p = profile1
           and cv = conversation1 and up = progress1 and si = saved1 and m = message1
           and cv' = "conversation1\<lparr>cc_user_id := 2\<rparr>" and now = 5000
           and wc = "\<lambda>r. cc_id r = 10" and fc = "\<lambda>r. r\<lparr>cc_user_id := 2\<rparr>"]
      C1_policies_permit_the_owner_where_declared
        [where s = session1 and c = DELETE and d = db0 and p = profile1
           and cv = conversation1 and up = progress1 and si = saved1 and m = message1]
      C1_policies_permit_the_owner_where_declared
        [where s = session2 and c = UPDATE and d = db0 and p = profile1
           and cv = conversation1 and up = progress1 and si = saved1 and m = message1
           and now = 5000 and wc = "\<lambda>r. cc_id r = 10" and fc = "\<lambda>r. r\<lparr>cc_user_id := 2\<rparr>"
           and dc = db0]
      C1_policies_permit_the_owner_where_declared
        [where s = session1 and c = INSERT and d = db0 and p = profile1
           and cv = conversation1 and up = progress1 and si = saved1 and m = message1]
      C1_policies_permit_the_owner_where_declared
        [where s = session2 and c = SELECT and d = db0 and p = profile1
           and cv = conversation1 and up = progress1 and si = saved1 and m = message1]
    by (simp add: example_defs)
qed

text \<open>The claim as stated fails: principal 1 owns \<open>profile1\<close>, and its \<open>DELETE\<close> is not
  permitted.\<close>

theorem C1_counterexample:
  "\<not> (permits profiles_policies session1 DELETE db0 profile1
        \<longleftrightarrow> auth_uid session1 = Some (p_id profile1))"
  by (simp add: permits_def using_passes_def profiles_policies_def applies_def example_defs)

section \<open>C3: inserting a message\<close>

text \<open>
  C3. An insert into \<open>chat_messages\<close> ends with the authorization error exactly when no
  row of \<open>chat_conversations\<close> has the message's \<open>conversation_id\<close> as \<open>id\<close> and the
  requesting principal as \<open>user_id\<close>. When there is such a conversation the policy permits
  the insert, and with a fresh primary key the message is appended.
\<close>

theorem C3_message_insert_needs_own_conversation:
  "(insert_into_chat_messages s m d = Inl AuthorizationDenied \<longleftrightarrow>
      \<not> (\<exists>parent \<in> set (chat_conversations d).
            cc_id parent = cm_conversation_id m \<and> auth_uid s = Some (cc_user_id parent)))
   \<and> ((\<exists>parent \<in> set (chat_conversations d).
          cc_id parent = cm_conversation_id m \<and> auth_uid s = Some (cc_user_id parent))
       \<longrightarrow> permits chat_messages_policies s INSERT d m
           \<and> (\<not> list_ex (\<lambda>x. cm_id x = cm_id m) (chat_messages d)
                \<longrightarrow> insert_into_chat_messages s m d
                      = Inr (d\<lparr>chat_messages := chat_messages d @ [m]\<rparr>)))"
  by (auto simp: insert_into_chat_messages_def permits_chat_messages
      table_insert_chat_messages_def conversation_exists_def list_ex_iff)

text \<open>Principal 2 into principal 1's conversation: denied. Principal 1 into a conversation
  that does not exist: denied. Principal 1 into its own conversation: inserted.\<close>

theorem C3_witness:
  "insert_into_chat_messages session2
      \<lparr>cm_id = 101, cm_conversation_id = 10, cm_content = ''hello'', cm_is_user = True,
       cm_created_at = None\<rparr> db0 = Inl AuthorizationDenied
   \<and> insert_into_chat_messages session1
      \<lparr>cm_id = 101, cm_conversation_id = 11, cm_content = ''hello'', cm_is_user = True,
       cm_created_at = None\<rparr> db0 = Inl AuthorizationDenied
   \<and> insert_into_chat_messages session1
      \<lparr>cm_id = 101, cm_conversation_id = 10, cm_content = ''hello'', cm_is_user = True,
       cm_created_at = None\<rparr> db0
     = Inr (db0\<lparr>chat_messages := [message1, message2,
          \<lparr>cm_id = 101, cm_conversation_id = 10, cm_content = ''hello'', cm_is_user = True,
           cm_created_at = None\<rparr>]\<rparr>)"
  using
    C3_message_insert_needs_own_conversation [of session2
      "\<lparr>cm_id = 101, cm_conversation_id = 10, cm_content = ''hello'', cm_is_user = True,
        cm_created_at = None\<rparr>" db0]
    C3_message_insert_needs_own_conversation [of session1
      "\<lparr>cm_id = 101, cm_conversation_id = 11, cm_content = ''hello'', cm_is_user = True,
        cm_created_at = None\<rparr>" db0]
    C3_message_insert_needs_own_conversation [of session1
      "\<lparr>cm_id = 101, cm_conversation_id = 10, cm_content = ''hello'', cm_is_user = True,
        cm_created_at = None\<rparr>" db0]
  by (simp add: example_defs)

section \<open>C4: the two uniqueness constraints\<close>

text \<open>
  C4. Inserting a \<open>user_progress\<close> row whose \<open>(user_id, quest_type)\<close> pair already exists,
  or a \<open>user_saved_items\<close> row whose \<open>(user_id, item_type, item_id)\<close> triple already exists,
  fails at the table with UniquenessViolation. A session reaches the table only through
  the \<open>INSERT\<close> policy: for the principal named in the row's \<open>user_id\<close> the statement ends
  with UniquenessViolation, any other session is stopped one step earlier with the
  authorization error. In every case the database is as it was: the first row remains and
  no second row is created.
\<close>

theorem C4_duplicate_insert_is_rejected:
  "(list_ex (\<lambda>x. up_user_id x = up_user_id r \<and> up_quest_type x = up_quest_type r)
            (user_progress d)
      \<longrightarrow> table_insert_user_progress r d = Inl UniquenessViolation
          \<and> insert_into_user_progress s r d
            = Inl (if auth_uid s = Some (up_user_id r) then UniquenessViolation
                   else AuthorizationDenied)
          \<and> after s now (InsertProgress r) d = d)
   \<and> (list_ex (\<lambda>x. usi_user_id x = usi_user_id i \<and> usi_item_type x = usi_item_type i
                    \<and> usi_item_id x = usi_item_id i) (user_saved_items d)
      \<longrightarrow> table_insert_user_saved_items i d = Inl UniquenessViolation
          \<and> insert_into_user_saved_items s i d
            = Inl (if auth_uid s = Some (usi_user_id i) then UniquenessViolation
                   else AuthorizationDenied)
          \<and> after s now (InsertSavedItem i) d = d)"
  by (simp add: insert_into_user_progress_def insert_into_user_saved_items_def
      permits_user_progress permits_user_saved_items table_insert_user_progress_def
      table_insert_user_saved_items_def after_def result_state_def)

text \<open>Principal 1 inserts its \<open>profile\<close> quest and its saved college a second time, under
  new primary keys.\<close>

theorem C4_witness:
  "table_insert_user_progress (progress1\<lparr>up_id := 301\<rparr>) db0 = Inl UniquenessViolation
   \<and> insert_into_user_progress session1 (progress1\<lparr>up_id := 301\<rparr>) db0
       = Inl UniquenessViolation
   \<and> after session1 7000 (InsertProgress (progress1\<lparr>up_id := 301\<rparr>)) db0 = db0
   \<and> table_insert_user_saved_items (saved1\<lparr>usi_id := 401\<rparr>) db0 = Inl UniquenessViolation
   \<and> insert_into_user_saved_items session1 (saved1\<lparr>usi_id := 401\<rparr>) db0
       = Inl UniquenessViolation
   \<and> after session1 7000 (InsertSavedItem (saved1\<lparr>usi_id := 401\<rparr>)) db0 = db0
   \<and> user_progress db0 = [progress1] \<and> user_saved_items db0 = [saved1]"
  using C4_duplicate_insert_is_rejected [of "progress1\<lparr>up_id := 301\<rparr>" db0 session1 7000
      "saved1\<lparr>usi_id := 401\<rparr>"]
  by (simp add: example_defs)

section \<open>C5: visible scholarships\<close>

text \<open>
  C5. For a session of the role \<open>authenticated\<close>, a select over \<open>scholarships\<close> with no
  \<open>WHERE\<close> clause returns exactly the rows whose \<open>is_active\<close> is true; a row with
  \<open>is_active\<close> false or NULL is not returned.
\<close>

theorem C5_select_scholarships_active_only:
  "sess_role s = authenticated \<Longrightarrow>
     select_from_scholarships s (\<lambda>r. True) d
       = filter (\<lambda>r. sch_is_active r = Some True) (scholarships d)"
  by (simp add: select_from_scholarships_def rls_select_def permits_scholarships)

text \<open>Of the three scholarships (active, inactive, NULL) the first is returned.\<close>

theorem C5_witness:
  "sess_role session1 = authenticated
   \<and> scholarships db0 = [scholarship1, scholarship2, scholarship3]
   \<and> select_from_scholarships session1 (\<lambda>r. True) db0 = [scholarship1]"
  using C5_select_scholarships_active_only [of session1 db0]
  by (simp add: example_defs)

section \<open>C6: the timestamp trigger\<close>

text \<open>
  C6. An update statement on \<open>profiles\<close>, \<open>chat_conversations\<close> or \<open>user_progress\<close> that
  succeeds leaves every row it updated with \<open>updated_at\<close> equal to the current time,
  whatever the \<open>SET\<close> clause \<open>f\<close> put there, and leaves the other rows as they were.
\<close>

theorem C6_updated_at_is_overwritten:
  "(update_profiles s now w1 f1 d = Inr d1 \<longrightarrow>
      profiles d1 =
        map (\<lambda>r. if w1 r \<and> auth_uid s = Some (p_id r)
                  then (f1 r)\<lparr>p_updated_at := Some now\<rparr> else r) (profiles d))
   \<and> (update_chat_conversations s now w2 f2 d = Inr d2 \<longrightarrow>
      chat_conversations d2 =
        map (\<lambda>r. if w2 r \<and> auth_uid s = Some (cc_user_id r)
                  then (f2 r)\<lparr>cc_updated_at := Some now\<rparr> else r) (chat_conversations d))
   \<and> (update_user_progress s now w3 f3 d = Inr d3 \<longrightarrow>
      user_progress d3 =
        map (\<lambda>r. if w3 r \<and> auth_uid s = Some (up_user_id r)
                  then (f3 r)\<lparr>up_updated_at := Some now\<rparr> else r) (user_progress d))"
  using update_profiles_rows update_chat_conversations_rows update_user_progress_rows
  by blast

text \<open>Three updates by principal 1 at time 5000 whose \<open>SET\<close> clauses write 1, NULL and 9999
  into \<open>updated_at\<close>: the rows are stored with 5000.\<close>

theorem C6_witness:
  "update_profiles session1 5000 (\<lambda>r. True)
       (\<lambda>r. r\<lparr>p_phone := Some ''98100'', p_updated_at := Some 1\<rparr>) db0
     = Inr (db0\<lparr>profiles :=
              [profile1\<lparr>p_phone := Some ''98100'', p_updated_at := Some 5000\<rparr>, profile2]\<rparr>)
   \<and> update_chat_conversations session1 5000 (\<lambda>r. cc_id r = 10)
       (\<lambda>r. r\<lparr>cc_title := None, cc_updated_at := None\<rparr>) db0
     = Inr (db0\<lparr>chat_conversations :=
              [conversation1\<lparr>cc_title := None, cc_updated_at := Some 5000\<rparr>, conversation2]\<rparr>)
   \<and> update_user_progress session1 5000 (\<lambda>r. True)
       (\<lambda>r. r\<lparr>up_points := Some 10, up_updated_at := Some 9999\<rparr>) db0
     = Inr (db0\<lparr>user_progress :=
              [progress1\<lparr>up_points := Some 10, up_updated_at := Some 5000\<rparr>]\<rparr>)"
proof -
  let ?f1 = "\<lambda>r. r\<lparr>p_phone := Some ''98100'', p_updated_at := Some 1\<rparr>"
  let ?f2 = "\<lambda>r. r\<lparr>cc_title := None, cc_updated_at := None\<rparr>"
  let ?f3 = "\<lambda>r. r\<lparr>up_points := Some 10, up_updated_at := Some 9999\<rparr>"
  have a: "update_profiles session1 5000 (\<lambda>r. True) ?f1 db0
     = Inr (db0\<lparr>profiles :=
              [profile1\<lparr>p_phone := Some ''98100'', p_updated_at := Some 5000\<rparr>, profile2]\<rparr>)"
    by (simp add: update_profiles_def permits_profiles check_update_profiles
        set_updated_at_profiles_def handle_updated_at_def user_exists_def example_defs)
  have b: "update_chat_conversations session1 5000 (\<lambda>r. cc_id r = 10) ?f2 db0
     = Inr (db0\<lparr>chat_conversations :=
              [conversation1\<lparr>cc_title := None, cc_updated_at := Some 5000\<rparr>, conversation2]\<rparr>)"
    by (simp add: update_chat_conversations_def permits_chat_conversations
        check_update_chat_conversations conversation_exists_def
        set_updated_at_conversations_def handle_updated_at_def user_exists_def example_defs)
  have c: "update_user_progress session1 5000 (\<lambda>r. True) ?f3 db0
     = Inr (db0\<lparr>user_progress :=
              [progress1\<lparr>up_points := Some 10, up_updated_at := Some 5000\<rparr>]\<rparr>)"
    by (simp add: update_user_progress_def permits_user_progress check_update_user_progress
        set_updated_at_progress_def handle_updated_at_def user_exists_def example_defs)
  show ?thesis
    using a b c
      C6_updated_at_is_overwritten
        [of session1 5000 "\<lambda>r. True" ?f1 db0 _ "\<lambda>r. cc_id r = 10" ?f2 _ "\<lambda>r. True" ?f3]
    by (simp add: example_defs)
qed

section \<open>C7: the profile made at signup\<close>

text \<open>
  C7. In a database where every profile belongs to a principal (the foreign key of
  \<open>profiles.id\<close>, which every statement keeps), creating a principal whose \<open>id\<close> is new succeeds, and the statement itself
  appends one profile: the only row of \<open>profiles\<close> with that \<open>id\<close>. Its \<open>full_name\<close> is the
  text of the member \<open>full_name\<close> of the signup metadata, and the empty string when the
  metadata has no such member (or holds JSON null there, or is no object at all).
\<close>

theorem C7_signup_creates_exactly_one_profile:
  assumes fresh: "\<not> user_exists d (au_id u)"
    and fk: "list_all (\<lambda>p. user_exists d (p_id p)) (profiles d)"
  shows "\<exists>d' row. insert_into_auth_users now u d = Inr d'
           \<and> profiles d' = profiles d @ [row]
           \<and> filter (\<lambda>p. p_id p = au_id u) (profiles d') = [row]
           \<and> p_id row = au_id u
           \<and> p_full_name row =
               Some (case au_raw_user_meta_data u of
                       Some (JObject members) \<Rightarrow>
                         (case map_of members ''full_name'' of
                            Some (JString name) \<Rightarrow> name
                          | Some (JOther printed) \<Rightarrow> printed
                          | Some JNull \<Rightarrow> ''''
                          | None \<Rightarrow> '''')
                     | Some JNotObject \<Rightarrow> ''''
                     | None \<Rightarrow> '''')"
proof -
  have none: "\<not> list_ex (\<lambda>x. p_id x = au_id u) (profiles d)"
    using fresh fk by (auto simp: list_ex_iff list_all_iff)
  then have empty: "filter (\<lambda>p. p_id p = au_id u) (profiles d) = []"
    by (auto simp: list_ex_iff filter_empty_conv)
  show ?thesis
    using none empty fresh
    by (simp add: insert_into_auth_users_def handle_new_user_def
        table_insert_profiles_def user_exists_def json_get_text_def coalesce_def
        split: option.splits jsonb.splits json_value.splits)
qed

text \<open>Principal 3 signs up with \<open>full_name\<close> Ravi at time 2000.\<close>

theorem C7_witness:
  "\<not> user_exists db0 (au_id user3)
   \<and> list_all (\<lambda>p. user_exists db0 (p_id p)) (profiles db0)
   \<and> insert_into_auth_users 2000 user3 db0
       = Inr (db1\<lparr>profiles := [profile1, profile2, profile3]\<rparr>)
   \<and> filter (\<lambda>p. p_id p = 3) [profile1, profile2, profile3] = [profile3]
   \<and> p_full_name profile3 = Some ''Ravi''"
  using C7_signup_creates_exactly_one_profile [of db0 user3 2000]
  by (simp add: insert_into_auth_users_def handle_new_user_def
        table_insert_profiles_def user_exists_def json_get_text_def coalesce_def example_defs)

section \<open>C8: running the signup function twice\<close>




section \<open>C10: a saved item that points nowhere\<close>

text \<open>
  C10. \<open>user_saved_items.item_id\<close> has no foreign key. An insert by the row's own principal,
  with a fresh primary key and a new \<open>(user_id, item_type, item_id)\<close> triple, succeeds
  although \<open>item_id\<close> is the \<open>id\<close> of no college, scholarship or career path.
\<close>

theorem C10_saved_item_need_not_exist:
  "auth_uid s = Some (usi_user_id r) \<Longrightarrow> user_exists d (usi_user_id r)
   \<Longrightarrow> \<not> list_ex (\<lambda>x. usi_id x = usi_id r) (user_saved_items d)
   \<Longrightarrow> \<not> list_ex (\<lambda>x. usi_user_id x = usi_user_id r \<and> usi_item_type x = usi_item_type r
                      \<and> usi_item_id x = usi_item_id r) (user_saved_items d)
   \<Longrightarrow> usi_item_id r \<notin> set (reference_ids d)
   \<Longrightarrow> insert_into_user_saved_items s r d
         = Inr (d\<lparr>user_saved_items := user_saved_items d @ [r]\<rparr>)"
  by (simp add: insert_into_user_saved_items_def permits_user_saved_items
      table_insert_user_saved_items_def)

text \<open>Principal 1 saves the college 999; the reference tables hold 50, 60, 61, 62 and 70.\<close>

theorem C10_witness:
  "reference_ids db0 = [50, 60, 61, 62, 70]
   \<and> insert_into_user_saved_items session1
        \<lparr>usi_id = 401, usi_user_id = 1, usi_item_type = ''college'', usi_item_id = 999,
         usi_notes = None, usi_created_at = Some 1500\<rparr> db0
      = Inr (db0\<lparr>user_saved_items := [saved1,
        \<lparr>usi_id = 401, usi_user_id = 1, usi_item_type = ''college'', usi_item_id = 999,
         usi_notes = None, usi_created_at = Some 1500\<rparr>]\<rparr>)"
  using C10_saved_item_need_not_exist [of session1
        "\<lparr>usi_id = 401, usi_user_id = 1, usi_item_type = ''college'', usi_item_id = 999,
          usi_notes = None, usi_created_at = Some 1500\<rparr>" db0]
  by (simp add: reference_ids_def user_exists_def example_defs)

section \<open>Statements that change nothing\<close>

text \<open>A table without a policy for a command: the statement finds no row it may touch.\<close>

lemma update_chat_messages_noop: "update_chat_messages s w f d = Inr d"
  by (simp add: update_chat_messages_def permits_chat_messages update_rows_untargeted)

lemma update_user_saved_items_noop: "update_user_saved_items s w f d = Inr d"
  by (simp add: update_user_saved_items_def permits_user_saved_items update_rows_untargeted)

lemma delete_from_profiles_noop: "delete_from_profiles s w d = d"
  by (simp add: delete_from_profiles_def permits_profiles)

lemma delete_from_chat_messages_noop: "delete_from_chat_messages s w d = d"
  by (simp add: delete_from_chat_messages_def permits_chat_messages)

lemma delete_from_user_progress_noop: "delete_from_user_progress s w d = d"
  by (simp add: delete_from_user_progress_def permits_user_progress)

section \<open>The foreign key of messages is kept\<close>

lemma mhc_iff:
  "messages_have_conversations d \<longleftrightarrow>
     (\<forall>m \<in> set (chat_messages d).
        \<exists>c \<in> set (chat_conversations d). cc_id c = cm_conversation_id m)"
  by (simp add: messages_have_conversations_def conversation_exists_def list_all_iff
      list_ex_iff)

lemma mhc_same_chat:
  "chat_conversations d' = chat_conversations d \<Longrightarrow> chat_messages d' = chat_messages d
     \<Longrightarrow> messages_have_conversations d' = messages_have_conversations d"
  by (simp add: messages_have_conversations_def)

lemma insert_into_auth_users_chat:
  "insert_into_auth_users now u d = Inr d' \<Longrightarrow>
     chat_conversations d' = chat_conversations d \<and> chat_messages d' = chat_messages d"
  by (auto simp: insert_into_auth_users_def handle_new_user_def table_insert_profiles_def
      split: if_splits)

lemma insert_into_profiles_chat:
  "insert_into_profiles s r d = Inr d' \<Longrightarrow>
     chat_conversations d' = chat_conversations d \<and> chat_messages d' = chat_messages d"
  by (auto simp: insert_into_profiles_def table_insert_profiles_def split: if_splits)

lemma update_profiles_chat:
  "update_profiles s now w f d = Inr d' \<Longrightarrow>
     chat_conversations d' = chat_conversations d \<and> chat_messages d' = chat_messages d"
  by (auto simp: update_profiles_def split: sum.splits)

lemma insert_into_user_progress_chat:
  "insert_into_user_progress s r d = Inr d' \<Longrightarrow>
     chat_conversations d' = chat_conversations d \<and> chat_messages d' = chat_messages d"
  by (auto simp: insert_into_user_progress_def table_insert_user_progress_def
      split: if_splits)

lemma update_user_progress_chat:
  "update_user_progress s now w f d = Inr d' \<Longrightarrow>
     chat_conversations d' = chat_conversations d \<and> chat_messages d' = chat_messages d"
  by (auto simp: update_user_progress_def split: sum.splits)

lemma insert_into_user_saved_items_chat:
  "insert_into_user_saved_items s r d = Inr d' \<Longrightarrow>
     chat_conversations d' = chat_conversations d \<and> chat_messages d' = chat_messages d"
  by (auto simp: insert_into_user_saved_items_def table_insert_user_saved_items_def
      split: if_splits)

lemma delete_from_user_saved_items_chat:
  "chat_conversations (delete_from_user_saved_items s w d) = chat_conversations d
   \<and> chat_messages (delete_from_user_saved_items s w d) = chat_messages d"
  by (simp add: delete_from_user_saved_items_def)

lemma mhc_delete_from_auth_users:
  "messages_have_conversations d \<Longrightarrow> messages_have_conversations (delete_from_auth_users u d)"
  by (auto simp: mhc_iff delete_from_auth_users_def list_ex_iff)

lemma mhc_insert_into_chat_conversations:
  "messages_have_conversations d \<Longrightarrow> insert_into_chat_conversations s r d = Inr d'
     \<Longrightarrow> messages_have_conversations d'"
  by (auto simp: mhc_iff insert_into_chat_conversations_def
      table_insert_chat_conversations_def split: if_splits)

lemma mhc_update_chat_conversations:
  "messages_have_conversations d \<Longrightarrow> update_chat_conversations s now w f d = Inr d'
     \<Longrightarrow> messages_have_conversations d'"
  by (auto simp: messages_have_conversations_def update_chat_conversations_def list_all_iff
      split: sum.splits if_splits)

lemma mhc_delete_from_chat_conversations:
  "messages_have_conversations d \<Longrightarrow>
     messages_have_conversations (delete_from_chat_conversations s w d)"
  by (auto simp: mhc_iff delete_from_chat_conversations_def list_ex_iff)

lemma mhc_insert_into_chat_messages:
  "messages_have_conversations d \<Longrightarrow> insert_into_chat_messages s r d = Inr d'
     \<Longrightarrow> messages_have_conversations d'"
  by (auto simp: messages_have_conversations_def insert_into_chat_messages_def
      table_insert_chat_messages_def split: if_splits)

lemma mhc_frame:
  "messages_have_conversations d \<Longrightarrow>
     chat_conversations d' = chat_conversations d \<and> chat_messages d' = chat_messages d
     \<Longrightarrow> messages_have_conversations d'"
  by (simp add: messages_have_conversations_def)

lemma mhc_execute:
  assumes inv: "messages_have_conversations d" and ex: "execute s now st d = Inr d'"
  shows "messages_have_conversations d'"
proof (cases st)
  case (InsertAuthUser u)
  with ex have "insert_into_auth_users now u d = Inr d'" by simp
  then show ?thesis by (rule mhc_frame [OF inv insert_into_auth_users_chat])
next
  case (DeleteAuthUser u)
  with ex have "d' = delete_from_auth_users u d" by simp
  then show ?thesis by (simp add: mhc_delete_from_auth_users [OF inv])
next
  case (InsertProfile r)
  with ex have "insert_into_profiles s r d = Inr d'" by simp
  then show ?thesis by (rule mhc_frame [OF inv insert_into_profiles_chat])
next
  case (UpdateProfiles w f)
  with ex have "update_profiles s now w f d = Inr d'" by simp
  then show ?thesis by (rule mhc_frame [OF inv update_profiles_chat])
next
  case (DeleteProfiles w)
  with ex have "d' = d" by (simp add: delete_from_profiles_noop)
  then show ?thesis by (simp add: inv)
next
  case (InsertConversation r)
  with ex have "insert_into_chat_conversations s r d = Inr d'" by simp
  then show ?thesis by (rule mhc_insert_into_chat_conversations [OF inv])
next
  case (UpdateConversations w f)
  with ex have "update_chat_conversations s now w f d = Inr d'" by simp
  then show ?thesis by (rule mhc_update_chat_conversations [OF inv])
next
  case (DeleteConversations w)
  with ex have "d' = delete_from_chat_conversations s w d" by simp
  then show ?thesis by (simp add: mhc_delete_from_chat_conversations [OF inv])
next
  case (InsertMessage r)
  with ex have "insert_into_chat_messages s r d = Inr d'" by simp
  then show ?thesis by (rule mhc_insert_into_chat_messages [OF inv])
next
  case (UpdateMessages w f)
  with ex have "d' = d" by (simp add: update_chat_messages_noop)
  then show ?thesis by (simp add: inv)
next
  case (DeleteMessages w)
  with ex have "d' = d" by (simp add: delete_from_chat_messages_noop)
  then show ?thesis by (simp add: inv)
next
  case (InsertProgress r)
  with ex have "insert_into_user_progress s r d = Inr d'" by simp
  then show ?thesis by (rule mhc_frame [OF inv insert_into_user_progress_chat])
next
  case (UpdateProgress w f)
  with ex have "update_user_progress s now w f d = Inr d'" by simp
  then show ?thesis by (rule mhc_frame [OF inv update_user_progress_chat])
next
  case (DeleteProgress w)
  with ex have "d' = d" by (simp add: delete_from_user_progress_noop)
  then show ?thesis by (simp add: inv)
next
  case (InsertSavedItem r)
  with ex have "insert_into_user_saved_items s r d = Inr d'" by simp
  then show ?thesis by (rule mhc_frame [OF inv insert_into_user_saved_items_chat])
next
  case (UpdateSavedItems w f)
  with ex have "d' = d" by (simp add: update_user_saved_items_noop)
  then show ?thesis by (simp add: inv)
next
  case (DeleteSavedItems w)
  with ex have "d' = delete_from_user_saved_items s w d" by simp
  then show ?thesis
    using mhc_frame [OF inv delete_from_user_saved_items_chat [of s w d]] by simp
qed

lemma mhc_after:
  assumes inv: "messages_have_conversations d"
  shows "messages_have_conversations (after s now st d)"
proof (cases "execute s now st d")
  case (Inl e)
  then show ?thesis by (simp add: after_def result_state_def inv)
next
  case (Inr d')
  then show ?thesis by (simp add: after_def result_state_def mhc_execute [OF inv Inr])
qed

lemma mhc_run:
  "messages_have_conversations d \<Longrightarrow> messages_have_conversations (run stmts d)"
proof (induction stmts arbitrary: d)
  case Nil
  then show ?case by simp
next
  case (Cons st stmts)
  obtain s now q where st: "st = (s, now, q)" by (cases st) auto
  show ?case using Cons.IH [OF mhc_after [OF Cons.prems, of s now q]] by (simp add: st)
qed

lemma cascade_delete:
  "c \<in> set (chat_conversations d) \<Longrightarrow> w c \<Longrightarrow> auth_uid s = Some (cc_user_id c) \<Longrightarrow>
     c \<notin> set (chat_conversations (delete_from_chat_conversations s w d))
     \<and> (\<forall>m \<in> set (chat_messages (delete_from_chat_conversations s w d)).
           cm_conversation_id m \<noteq> cc_id c)"
  by (auto simp: delete_from_chat_conversations_def permits_chat_conversations list_ex_iff)

section \<open>C9: no message without its conversation\<close>

text \<open>
  C9. A delete on \<open>chat_conversations\<close> removes every conversation of the requester that
  the \<open>WHERE\<close> clause selects, and with it every message whose \<open>conversation_id\<close> is that
  conversation's \<open>id\<close>. Starting from a database where every message has its conversation
  (one without messages, as the migration leaves it, is such a database), every sequence
  of statements, each either carried out or refused, ends in a database where every
  message has its conversation.
\<close>

theorem C9_messages_always_have_a_conversation:
  "(\<forall>c \<in> set (chat_conversations d). w c \<and> auth_uid s = Some (cc_user_id c) \<longrightarrow>
       c \<notin> set (chat_conversations (delete_from_chat_conversations s w d))
       \<and> (\<forall>m \<in> set (chat_messages (delete_from_chat_conversations s w d)).
             cm_conversation_id m \<noteq> cc_id c))
   \<and> (messages_have_conversations d \<longrightarrow> messages_have_conversations (run stmts d))
   \<and> (chat_messages d = [] \<longrightarrow> messages_have_conversations (run stmts d))"
proof -
  have "chat_messages d = [] \<Longrightarrow> messages_have_conversations d"
    by (simp add: messages_have_conversations_def)
  then have c: "chat_messages d = [] \<longrightarrow> messages_have_conversations (run stmts d)"
    using mhc_run [of d stmts] by blast
  have b: "messages_have_conversations d \<longrightarrow> messages_have_conversations (run stmts d)"
    using mhc_run [of d stmts] by blast
  have a: "\<forall>c \<in> set (chat_conversations d). w c \<and> auth_uid s = Some (cc_user_id c) \<longrightarrow>
       c \<notin> set (chat_conversations (delete_from_chat_conversations s w d))
       \<and> (\<forall>m \<in> set (chat_messages (delete_from_chat_conversations s w d)).
             cm_conversation_id m \<noteq> cc_id c)"
    using cascade_delete [of _ d w s] by blast
  show ?thesis using a b c by (intro conjI)
qed

text \<open>Principal 1 deletes its conversations and then tries to write into the deleted one:
  conversation 10 and its message are gone, the insert is refused, and the message that
  is left has its conversation.\<close>

theorem C9_witness:
  "messages_have_conversations db0
   \<and> chat_conversations (delete_from_chat_conversations session1 (\<lambda>c. True) db0)
       = [conversation2]
   \<and> chat_messages (delete_from_chat_conversations session1 (\<lambda>c. True) db0) = [message2]
   \<and> chat_messages
        (run [(session1, 5000, DeleteConversations (\<lambda>c. True)),
              (session1, 5001, InsertMessage (message1\<lparr>cm_id := 101\<rparr>))] db0) = [message2]
   \<and> messages_have_conversations
        (run [(session1, 5000, DeleteConversations (\<lambda>c. True)),
              (session1, 5001, InsertMessage (message1\<lparr>cm_id := 101\<rparr>))] db0)"
proof -
  have del: "delete_from_chat_conversations session1 (\<lambda>c. True) db0
      = db0\<lparr>chat_conversations := [conversation2], chat_messages := [message2]\<rparr>"
    by (simp add: delete_from_chat_conversations_def permits_chat_conversations example_defs)
  have ins: "insert_into_chat_messages session1 (message1\<lparr>cm_id := 101\<rparr>)
        (db0\<lparr>chat_conversations := [conversation2], chat_messages := [message2]\<rparr>)
      = Inl AuthorizationDenied"
    by (simp add: insert_into_chat_messages_def permits_chat_messages example_defs)
  have inv0: "messages_have_conversations db0"
    by (simp add: messages_have_conversations_def conversation_exists_def example_defs)
  show ?thesis
    using inv0
      C9_messages_always_have_a_conversation
        [of db0 "\<lambda>c. True" session1
          "[(session1, 5000, DeleteConversations (\<lambda>c. True)),
            (session1, 5001, InsertMessage (message1\<lparr>cm_id := 101\<rparr>))]"]
    by (simp add: del ins after_def result_state_def)
qed
section \<open>The primary key of conversations is kept\<close>

text \<open>Conversations with distinct \<open>id\<close>s stay so under every statement: the insert and
  the update look the new \<open>id\<close> up among the other rows, and nothing else adds a row.\<close>

lemma update_rows_distinct:
  "update_rows tgt new chk (\<lambda>others n. \<not> list_ex (\<lambda>x. key x = key n) others) fk prev todo
     = Inr res
   \<Longrightarrow> distinct (map key (prev @ todo)) \<Longrightarrow> distinct (map key res)"
proof (induction todo arbitrary: prev)
  case Nil
  then show ?case by simp
next
  case (Cons r rs)
  show ?case
  proof (cases "tgt r")
    case False
    with Cons.prems have "update_rows tgt new chk
        (\<lambda>others n. \<not> list_ex (\<lambda>x. key x = key n) others) fk (prev @ [r]) rs = Inr res"
      by simp
    then show ?thesis using Cons.IH [of "prev @ [r]"] Cons.prems(2) by simp
  next
    case True
    with Cons.prems(1) have
      fresh: "\<not> list_ex (\<lambda>x. key x = key (new r)) (prev @ rs)" and
      rest: "update_rows tgt new chk
        (\<lambda>others n. \<not> list_ex (\<lambda>x. key x = key n) others) fk (prev @ [new r]) rs = Inr res"
      by (auto split: if_splits)
    have "distinct (map key ((prev @ [new r]) @ rs))"
      using fresh Cons.prems(2) by (auto simp: list_ex_iff)
    then show ?thesis using Cons.IH [OF rest] by simp
  qed
qed

lemma conversation_ids_after:
  assumes pk: "distinct (map cc_id (chat_conversations d))"
  shows "distinct (map cc_id (chat_conversations (after s now st d)))"
proof (cases "execute s now st d")
  case (Inl e)
  then show ?thesis by (simp add: after_def result_state_def pk)
next
  case (Inr d')
  have "distinct (map cc_id (chat_conversations d'))"
  proof (cases st)
    case (InsertAuthUser u)
    with Inr show ?thesis using insert_into_auth_users_chat [of now u d d'] pk by simp
  next
    case (DeleteAuthUser u)
    with Inr show ?thesis using pk
      by (auto simp: delete_from_auth_users_def distinct_map_filter)
  next
    case (InsertProfile r)
    with Inr show ?thesis using insert_into_profiles_chat [of s r d d'] pk by simp
  next
    case (UpdateProfiles w f)
    with Inr show ?thesis using update_profiles_chat [of s now w f d d'] pk by simp
  next
    case (DeleteProfiles w)
    with Inr show ?thesis using pk by (auto simp: delete_from_profiles_noop)
  next
    case (InsertConversation r)
    with Inr show ?thesis using pk
      by (fastforce simp: insert_into_chat_conversations_def
          table_insert_chat_conversations_def list_ex_iff split: if_splits)
  next
    case (UpdateConversations w f)
    with Inr obtain rows where rows:
      "update_rows (\<lambda>r. w r \<and> permits chat_conversations_policies s UPDATE d r)
         (\<lambda>r. set_updated_at_conversations now (f r))
         (check_passes chat_conversations_policies s UPDATE d)
         (\<lambda>others n. \<not> list_ex (\<lambda>x. cc_id x = cc_id n) others)
         (\<lambda>old n. cc_user_id n = cc_user_id old \<or> user_exists d (cc_user_id n))
         [] (chat_conversations d) = Inr rows"
      and d': "d' = d\<lparr>chat_conversations := rows\<rparr>"
      by (auto simp: update_chat_conversations_def split: sum.splits if_splits)
    show ?thesis using update_rows_distinct [OF rows] pk by (simp add: d')
  next
    case (DeleteConversations w)
    with Inr show ?thesis using pk
      by (auto simp: delete_from_chat_conversations_def distinct_map_filter)
  next
    case (InsertMessage r)
    with Inr show ?thesis using pk
      by (auto simp: insert_into_chat_messages_def table_insert_chat_messages_def
          split: if_splits)
  next
    case (UpdateMessages w f)
    with Inr show ?thesis using pk by (auto simp: update_chat_messages_noop)
  next
    case (DeleteMessages w)
    with Inr show ?thesis using pk by (auto simp: delete_from_chat_messages_noop)
  next
    case (InsertProgress r)
    with Inr show ?thesis using insert_into_user_progress_chat [of s r d d'] pk by simp
  next
    case (UpdateProgress w f)
    with Inr show ?thesis using update_user_progress_chat [of s now w f d d'] pk by simp
  next
    case (DeleteProgress w)
    with Inr show ?thesis using pk by (auto simp: delete_from_user_progress_noop)
  next
    case (InsertSavedItem r)
    with Inr show ?thesis using insert_into_user_saved_items_chat [of s r d d'] pk by simp
  next
    case (UpdateSavedItems w f)
    with Inr show ?thesis using pk by (auto simp: update_user_saved_items_noop)
  next
    case (DeleteSavedItems w)
    with Inr show ?thesis using delete_from_user_saved_items_chat [of s w d] pk by auto
  qed
  then show ?thesis by (simp add: after_def result_state_def Inr)
qed

lemma conversation_ids_run:
  "distinct (map cc_id (chat_conversations d))
     \<Longrightarrow> distinct (map cc_id (chat_conversations (run stmts d)))"
proof (induction stmts arbitrary: d)
  case Nil
  then show ?case by simp
next
  case (Cons st stmts)
  obtain s now q where st: "st = (s, now, q)" by (cases st) auto
  show ?case
    using Cons.IH [OF conversation_ids_after [OF Cons.prems, of s now q]] by (simp add: st)
qed

section \<open>The foreign key of profiles is kept\<close>

text \<open>Every profile belongs to a principal, and stays so under every statement: a profile
  enters with its principal, changes its \<open>id\<close> only to that of a principal, and leaves
  with its principal.\<close>

lemma profiles_fk_iff:
  "list_all (\<lambda>p. user_exists d (p_id p)) (profiles d) \<longleftrightarrow>
     (\<forall>p \<in> set (profiles d). \<exists>u \<in> set (auth_users d). au_id u = p_id p)"
  by (simp add: list_all_iff user_exists_def list_ex_iff)

lemma profiles_fk_frame:
  "list_all (\<lambda>p. user_exists d (p_id p)) (profiles d) \<Longrightarrow>
     auth_users d' = auth_users d \<and> profiles d' = profiles d
     \<Longrightarrow> list_all (\<lambda>p. user_exists d' (p_id p)) (profiles d')"
  by (simp add: user_exists_def)

lemma update_rows_fk:
  "update_rows tgt new chk uniq (\<lambda>old n. key n = key old \<or> ok (key n)) prev todo = Inr res
   \<Longrightarrow> \<forall>r \<in> set (prev @ todo). ok (key r) \<Longrightarrow> \<forall>r \<in> set res. ok (key r)"
proof (induction todo arbitrary: prev)
  case Nil
  then show ?case by simp
next
  case (Cons r rs)
  show ?case
  proof (cases "tgt r")
    case False
    with Cons.prems(1) have "update_rows tgt new chk uniq
        (\<lambda>old n. key n = key old \<or> ok (key n)) (prev @ [r]) rs = Inr res"
      by simp
    then show ?thesis using Cons.IH [of "prev @ [r]"] Cons.prems(2) by simp
  next
    case True
    with Cons.prems(1) have
      fk: "key (new r) = key r \<or> ok (key (new r))" and
      rest: "update_rows tgt new chk uniq
        (\<lambda>old n. key n = key old \<or> ok (key n)) (prev @ [new r]) rs = Inr res"
      by (auto split: if_splits)
    have "ok (key (new r))" using fk Cons.prems(2) by auto
    then have "\<forall>x \<in> set ((prev @ [new r]) @ rs). ok (key x)"
      using Cons.prems(2) by auto
    then show ?thesis using Cons.IH [OF rest] by blast
  qed
qed

lemma profiles_fk_insert_into_auth_users:
  assumes "list_all (\<lambda>p. user_exists d (p_id p)) (profiles d)"
    and "insert_into_auth_users now u d = Inr d'"
  shows "list_all (\<lambda>p. user_exists d' (p_id p)) (profiles d')"
  using assms
  by (auto simp: profiles_fk_iff insert_into_auth_users_def handle_new_user_def
      table_insert_profiles_def split: if_splits)

lemma profiles_fk_delete_from_auth_users:
  assumes inv: "list_all (\<lambda>p. user_exists d (p_id p)) (profiles d)"
  shows "list_all (\<lambda>p. user_exists (delete_from_auth_users u d) (p_id p))
              (profiles (delete_from_auth_users u d))"
proof -
  have users: "auth_users (delete_from_auth_users u d)
      = filter (\<lambda>x. au_id x \<noteq> u) (auth_users d)"
    by (simp add: delete_from_auth_users_def)
  have profs: "profiles (delete_from_auth_users u d)
      = filter (\<lambda>x. p_id x \<noteq> u) (profiles d)"
    by (simp add: delete_from_auth_users_def)
  have "\<forall>p \<in> set (profiles d). \<exists>x \<in> set (auth_users d). au_id x = p_id p"
    using inv by (simp add: profiles_fk_iff)
  then have "\<forall>p \<in> set (filter (\<lambda>x. p_id x \<noteq> u) (profiles d)).
      \<exists>x \<in> set (filter (\<lambda>x. au_id x \<noteq> u) (auth_users d)). au_id x = p_id p"
    by fastforce
  then show ?thesis
    by (simp add: list_all_iff user_exists_def list_ex_iff users profs)
qed

lemma profiles_fk_insert_into_profiles:
  assumes "list_all (\<lambda>p. user_exists d (p_id p)) (profiles d)"
    and "insert_into_profiles s r d = Inr d'"
  shows "list_all (\<lambda>p. user_exists d' (p_id p)) (profiles d')"
  using assms
  by (auto simp: list_all_iff user_exists_def insert_into_profiles_def
      table_insert_profiles_def split: if_splits)

lemma profiles_fk_update_profiles:
  assumes inv: "list_all (\<lambda>p. user_exists d (p_id p)) (profiles d)"
    and up: "update_profiles s now w f d = Inr d'"
  shows "list_all (\<lambda>p. user_exists d' (p_id p)) (profiles d')"
proof -
  obtain rows where rows:
    "update_rows (\<lambda>r. w r \<and> permits profiles_policies s UPDATE d r)
       (\<lambda>r. set_updated_at_profiles now (f r)) (check_passes profiles_policies s UPDATE d)
       (\<lambda>others n. \<not> list_ex (\<lambda>x. p_id x = p_id n) others)
       (\<lambda>old n. p_id n = p_id old \<or> user_exists d (p_id n)) [] (profiles d) = Inr rows"
    and d': "d' = d\<lparr>profiles := rows\<rparr>"
    using up by (auto simp: update_profiles_def split: sum.splits)
  have "\<forall>r \<in> set rows. user_exists d (p_id r)"
    using update_rows_fk [OF rows] inv by (simp add: list_all_iff)
  then show ?thesis by (simp add: d' list_all_iff user_exists_def)
qed

lemma other_tables_frame:
  "insert_into_chat_conversations s c d = Inr d' \<Longrightarrow>
     auth_users d' = auth_users d \<and> profiles d' = profiles d"
  "update_chat_conversations s now wc fc d = Inr d' \<Longrightarrow>
     auth_users d' = auth_users d \<and> profiles d' = profiles d"
  "insert_into_chat_messages s m d = Inr d' \<Longrightarrow>
     auth_users d' = auth_users d \<and> profiles d' = profiles d"
  "insert_into_user_progress s p d = Inr d' \<Longrightarrow>
     auth_users d' = auth_users d \<and> profiles d' = profiles d"
  "update_user_progress s now wu fu d = Inr d' \<Longrightarrow>
     auth_users d' = auth_users d \<and> profiles d' = profiles d"
  "insert_into_user_saved_items s i d = Inr d' \<Longrightarrow>
     auth_users d' = auth_users d \<and> profiles d' = profiles d"
  by (auto simp: insert_into_chat_conversations_def table_insert_chat_conversations_def
      update_chat_conversations_def insert_into_chat_messages_def
      table_insert_chat_messages_def insert_into_user_progress_def
      table_insert_user_progress_def update_user_progress_def
      insert_into_user_saved_items_def table_insert_user_saved_items_def
      split: if_splits sum.splits)

lemma other_deletes_frame:
  "auth_users (delete_from_chat_conversations s wc d) = auth_users d
     \<and> profiles (delete_from_chat_conversations s wc d) = profiles d"
  "auth_users (delete_from_user_saved_items s wi d) = auth_users d
     \<and> profiles (delete_from_user_saved_items s wi d) = profiles d"
  by (simp_all add: delete_from_chat_conversations_def delete_from_user_saved_items_def)

lemma profiles_fk_execute:
  assumes inv: "list_all (\<lambda>p. user_exists d (p_id p)) (profiles d)"
    and ex: "execute s now st d = Inr d'"
  shows "list_all (\<lambda>p. user_exists d' (p_id p)) (profiles d')"
proof (cases st)
  case (InsertAuthUser u)
  with ex have "insert_into_auth_users now u d = Inr d'" by simp
  then show ?thesis by (rule profiles_fk_insert_into_auth_users [OF inv])
next
  case (DeleteAuthUser u)
  with ex have "d' = delete_from_auth_users u d" by simp
  then show ?thesis by (simp add: profiles_fk_delete_from_auth_users [OF inv])
next
  case (InsertProfile r)
  with ex have "insert_into_profiles s r d = Inr d'" by simp
  then show ?thesis by (rule profiles_fk_insert_into_profiles [OF inv])
next
  case (UpdateProfiles w f)
  with ex have "update_profiles s now w f d = Inr d'" by simp
  then show ?thesis by (rule profiles_fk_update_profiles [OF inv])
next
  case (DeleteProfiles w)
  with ex have "d' = d" by (simp add: delete_from_profiles_noop)
  then show ?thesis by (simp add: inv)
next
  case (InsertConversation r)
  with ex have "insert_into_chat_conversations s r d = Inr d'" by simp
  then show ?thesis by (rule profiles_fk_frame [OF inv other_tables_frame(1)])
next
  case (UpdateConversations w f)
  with ex have "update_chat_conversations s now w f d = Inr d'" by simp
  then show ?thesis by (rule profiles_fk_frame [OF inv other_tables_frame(2)])
next
  case (DeleteConversations w)
  with ex have "d' = delete_from_chat_conversations s w d" by simp
  then show ?thesis
    using profiles_fk_frame [OF inv other_deletes_frame(1) [of s w d]] by simp
next
  case (InsertMessage r)
  with ex have "insert_into_chat_messages s r d = Inr d'" by simp
  then show ?thesis by (rule profiles_fk_frame [OF inv other_tables_frame(3)])
next
  case (UpdateMessages w f)
  with ex have "d' = d" by (simp add: update_chat_messages_noop)
  then show ?thesis by (simp add: inv)
next
  case (DeleteMessages w)
  with ex have "d' = d" by (simp add: delete_from_chat_messages_noop)
  then show ?thesis by (simp add: inv)
next
  case (InsertProgress r)
  with ex have "insert_into_user_progress s r d = Inr d'" by simp
  then show ?thesis by (rule profiles_fk_frame [OF inv other_tables_frame(4)])
next
  case (UpdateProgress w f)
  with ex have "update_user_progress s now w f d = Inr d'" by simp
  then show ?thesis by (rule profiles_fk_frame [OF inv other_tables_frame(5)])
next
  case (DeleteProgress w)
  with ex have "d' = d" by (simp add: delete_from_user_progress_noop)
  then show ?thesis by (simp add: inv)
next
  case (InsertSavedItem r)
  with ex have "insert_into_user_saved_items s r d = Inr d'" by simp
  then show ?thesis by (rule profiles_fk_frame [OF inv other_tables_frame(6)])
next
  case (UpdateSavedItems w f)
  with ex have "d' = d" by (simp add: update_user_saved_items_noop)
  then show ?thesis by (simp add: inv)
next
  case (DeleteSavedItems w)
  with ex have "d' = delete_from_user_saved_items s w d" by simp
  then show ?thesis
    using profiles_fk_frame [OF inv other_deletes_frame(2) [of s w d]] by simp
qed

lemma profiles_fk_run:
  "list_all (\<lambda>p. user_exists d (p_id p)) (profiles d)
     \<Longrightarrow> list_all (\<lambda>p. user_exists (run stmts d) (p_id p)) (profiles (run stmts d))"
proof (induction stmts arbitrary: d)
  case Nil
  then show ?case by simp
next
  case (Cons st stmts)
  obtain s now q where st: "st = (s, now, q)" by (cases st) auto
  have "list_all (\<lambda>p. user_exists (after s now q d) (p_id p)) (profiles (after s now q d))"
  proof (cases "execute s now q d")
    case (Inl e)
    then show ?thesis by (simp add: after_def result_state_def Cons.prems)
  next
    case (Inr d')
    then show ?thesis
      by (simp add: after_def result_state_def profiles_fk_execute [OF Cons.prems Inr])
  qed
  from Cons.IH [OF this] show ?case by (simp add: st)
qed

section \<open>Rows of another principal\<close>

lemma filter_map_untouched:
  "\<forall>r \<in> set xs. tgt r \<longrightarrow> \<not> P r \<and> \<not> P (new r) \<Longrightarrow>
     filter P (map (\<lambda>r. if tgt r then new r else r) xs) = filter P xs"
  by (induction xs) auto

lemma update_rows_filter:
  assumes res: "update_rows tgt new chk uniq fk [] rows = Inr res"
    and old: "\<And>r. tgt r \<Longrightarrow> \<not> P r"
    and new: "\<And>n. chk n \<Longrightarrow> \<not> P n"
  shows "filter P res = filter P rows"
proof -
  have "res = map (\<lambda>r. if tgt r then new r else r) rows"
    using update_rows_result [OF res] by simp
  moreover have "\<forall>r \<in> set rows. tgt r \<longrightarrow> \<not> P r \<and> \<not> P (new r)"
    using update_rows_checked [OF res] old new by blast
  ultimately show ?thesis by (simp add: filter_map_untouched)
qed

lemma message_owned_by_filter:
  "message_owned_by d u m =
     list_ex (\<lambda>c. cc_id c = cm_conversation_id m)
             (filter (\<lambda>c. cc_user_id c = u) (chat_conversations d))"
  by (auto simp: message_owned_by_def list_ex_iff)

lemma message_owned_by_cong:
  "filter (\<lambda>c. cc_user_id c = u) (chat_conversations d')
     = filter (\<lambda>c. cc_user_id c = u) (chat_conversations d)
   \<Longrightarrow> message_owned_by d' u = message_owned_by d u"
  by (rule ext) (simp add: message_owned_by_filter)

lemma one_owner:
  assumes "distinct (map cc_id (chat_conversations d))"
    and "c1 \<in> set (chat_conversations d)" and "c2 \<in> set (chat_conversations d)"
    and "cc_id c1 = cc_id c2"
  shows "c1 = c2"
  using assms by (meson distinct_map inj_onD)

lemma update_profiles_owned:
  assumes s: "auth_uid s = Some a" and ab: "a \<noteq> b"
    and up: "update_profiles s now w f d = Inr d'"
  shows "rows_owned_by b d' = rows_owned_by b d"
proof -
  obtain rows where rows:
    "update_rows (\<lambda>r. w r \<and> permits profiles_policies s UPDATE d r)
       (\<lambda>r. set_updated_at_profiles now (f r)) (check_passes profiles_policies s UPDATE d)
       (\<lambda>others n. \<not> list_ex (\<lambda>x. p_id x = p_id n) others)
       (\<lambda>old n. p_id n = p_id old \<or> user_exists d (p_id n)) [] (profiles d) = Inr rows"
    and d': "d' = d\<lparr>profiles := rows\<rparr>"
    using up by (auto simp: update_profiles_def split: sum.splits)
  have "filter (\<lambda>r. p_id r = b) rows = filter (\<lambda>r. p_id r = b) (profiles d)"
    using s ab by (intro update_rows_filter [OF rows])
      (auto simp: permits_profiles check_update_profiles)
  moreover have "message_owned_by d' b = message_owned_by d b"
    by (rule message_owned_by_cong) (simp add: d')
  ultimately show ?thesis
    by (simp add: rows_owned_by_def) (simp add: d')
qed

lemma update_user_progress_owned:
  assumes s: "auth_uid s = Some a" and ab: "a \<noteq> b"
    and up: "update_user_progress s now w f d = Inr d'"
  shows "rows_owned_by b d' = rows_owned_by b d"
proof -
  obtain rows where rows:
    "update_rows (\<lambda>r. w r \<and> permits user_progress_policies s UPDATE d r)
       (\<lambda>r. set_updated_at_progress now (f r)) (check_passes user_progress_policies s UPDATE d)
       (\<lambda>others n. \<not> list_ex (\<lambda>x. up_id x = up_id n
                     \<or> (up_user_id x = up_user_id n \<and> up_quest_type x = up_quest_type n))
                   others)
       (\<lambda>old n. up_user_id n = up_user_id old \<or> user_exists d (up_user_id n))
       [] (user_progress d) = Inr rows"
    and d': "d' = d\<lparr>user_progress := rows\<rparr>"
    using up by (auto simp: update_user_progress_def split: sum.splits)
  have "filter (\<lambda>r. up_user_id r = b) rows = filter (\<lambda>r. up_user_id r = b) (user_progress d)"
    using s ab by (intro update_rows_filter [OF rows])
      (auto simp: permits_user_progress check_update_user_progress)
  moreover have "message_owned_by d' b = message_owned_by d b"
    by (rule message_owned_by_cong) (simp add: d')
  ultimately show ?thesis
    by (simp add: rows_owned_by_def) (simp add: d')
qed

lemma update_chat_conversations_owned:
  assumes s: "auth_uid s = Some a" and ab: "a \<noteq> b"
    and up: "update_chat_conversations s now w f d = Inr d'"
  shows "rows_owned_by b d' = rows_owned_by b d"
proof -
  obtain rows where rows:
    "update_rows (\<lambda>r. w r \<and> permits chat_conversations_policies s UPDATE d r)
       (\<lambda>r. set_updated_at_conversations now (f r))
       (check_passes chat_conversations_policies s UPDATE d)
       (\<lambda>others n. \<not> list_ex (\<lambda>x. cc_id x = cc_id n) others)
       (\<lambda>old n. cc_user_id n = cc_user_id old \<or> user_exists d (cc_user_id n))
       [] (chat_conversations d) = Inr rows"
    and d': "d' = d\<lparr>chat_conversations := rows\<rparr>"
    using up by (auto simp: update_chat_conversations_def split: sum.splits if_splits)
  have own: "filter (\<lambda>r. cc_user_id r = b) rows
      = filter (\<lambda>r. cc_user_id r = b) (chat_conversations d)"
    using s ab by (intro update_rows_filter [OF rows])
      (auto simp: permits_chat_conversations check_update_chat_conversations)
  have "message_owned_by d' b = message_owned_by d b"
    by (rule message_owned_by_cong) (simp add: d' own)
  then show ?thesis
    by (simp add: rows_owned_by_def own) (simp add: d' own)
qed

lemma delete_from_chat_conversations_owned:
  assumes s: "auth_uid s = Some a" and ab: "a \<noteq> b"
    and pk: "distinct (map cc_id (chat_conversations d))"
  shows "rows_owned_by b (delete_from_chat_conversations s w d) = rows_owned_by b d"
proof -
  let ?d' = "delete_from_chat_conversations s w d"
  have convs: "chat_conversations ?d'
      = filter (\<lambda>r. \<not> (w r \<and> cc_user_id r = a)) (chat_conversations d)"
    using s by (auto simp: delete_from_chat_conversations_def permits_chat_conversations
        intro: filter_cong)
  have msgs: "chat_messages ?d'
      = filter (\<lambda>m. \<not> (\<exists>c \<in> set (chat_conversations d).
                          (w c \<and> cc_user_id c = a) \<and> cc_id c = cm_conversation_id m))
               (chat_messages d)"
    using s by (auto simp: delete_from_chat_conversations_def permits_chat_conversations
        list_ex_iff intro: filter_cong)
  have own: "filter (\<lambda>r. cc_user_id r = b) (chat_conversations ?d')
      = filter (\<lambda>r. cc_user_id r = b) (chat_conversations d)"
    using ab by (auto simp: convs intro: filter_cong)
  have mob: "message_owned_by ?d' b = message_owned_by d b"
    by (rule message_owned_by_cong) (rule own)
  have kept: "filter (message_owned_by d b) (chat_messages ?d')
      = filter (message_owned_by d b) (chat_messages d)"
  proof -
    have "\<And>m c. message_owned_by d b m \<Longrightarrow> c \<in> set (chat_conversations d)
        \<Longrightarrow> cc_user_id c = a \<Longrightarrow> cc_id c = cm_conversation_id m \<Longrightarrow> False"
    proof -
      fix m c
      assume m: "message_owned_by d b m" and c: "c \<in> set (chat_conversations d)"
        and ca: "cc_user_id c = a" and cid: "cc_id c = cm_conversation_id m"
      from m obtain c' where c': "c' \<in> set (chat_conversations d)"
        "cc_id c' = cm_conversation_id m" "cc_user_id c' = b"
        by (auto simp: message_owned_by_def list_ex_iff)
      have "c = c'" using one_owner [OF pk c c'(1)] cid c'(2) by simp
      with ca c'(3) ab show False by simp
    qed
    then show ?thesis
      unfolding msgs by (auto intro: filter_cong)
  qed
  have others: "profiles ?d' = profiles d" "user_progress ?d' = user_progress d"
    "user_saved_items ?d' = user_saved_items d"
    by (simp_all add: delete_from_chat_conversations_def)
  show ?thesis
    unfolding rows_owned_by_def mob own kept others ..
qed

lemma delete_from_user_saved_items_owned:
  assumes s: "auth_uid s = Some a" and ab: "a \<noteq> b"
  shows "rows_owned_by b (delete_from_user_saved_items s w d) = rows_owned_by b d"
proof -
  have "filter (\<lambda>r. usi_user_id r = b)
          (filter (\<lambda>r. \<not> (w r \<and> permits user_saved_items_policies s DELETE d r))
             (user_saved_items d))
        = filter (\<lambda>r. usi_user_id r = b) (user_saved_items d)"
    using s ab by (auto simp: permits_user_saved_items intro: filter_cong)
  moreover have "message_owned_by (delete_from_user_saved_items s w d) b
      = message_owned_by d b"
    by (rule message_owned_by_cong) (simp add: delete_from_user_saved_items_def)
  ultimately show ?thesis
    by (simp add: rows_owned_by_def) (simp add: delete_from_user_saved_items_def)
qed

lemma update_or_delete_owned:
  assumes s: "auth_uid s = Some a" and ab: "a \<noteq> b"
    and pk: "distinct (map cc_id (chat_conversations d))"
    and st: "is_update_or_delete st"
  shows "rows_owned_by b (after s now st d) = rows_owned_by b d"
proof (cases st)
  case (UpdateProfiles w f)
  show ?thesis
  proof (cases "update_profiles s now w f d")
    case (Inl e)
    then show ?thesis by (simp add: UpdateProfiles after_def result_state_def)
  next
    case (Inr d')
    then show ?thesis
      using update_profiles_owned [OF s ab Inr]
      by (simp add: UpdateProfiles after_def result_state_def)
  qed
next
  case (DeleteProfiles w)
  then show ?thesis by (simp add: after_def result_state_def delete_from_profiles_noop)
next
  case (UpdateConversations w f)
  show ?thesis
  proof (cases "update_chat_conversations s now w f d")
    case (Inl e)
    then show ?thesis by (simp add: UpdateConversations after_def result_state_def)
  next
    case (Inr d')
    then show ?thesis
      using update_chat_conversations_owned [OF s ab Inr]
      by (simp add: UpdateConversations after_def result_state_def)
  qed
next
  case (DeleteConversations w)
  then show ?thesis
    using delete_from_chat_conversations_owned [OF s ab pk, of w]
    by (simp add: after_def result_state_def)
next
  case (UpdateMessages w f)
  then show ?thesis by (simp add: after_def result_state_def update_chat_messages_noop)
next
  case (DeleteMessages w)
  then show ?thesis by (simp add: after_def result_state_def delete_from_chat_messages_noop)
next
  case (UpdateProgress w f)
  show ?thesis
  proof (cases "update_user_progress s now w f d")
    case (Inl e)
    then show ?thesis by (simp add: UpdateProgress after_def result_state_def)
  next
    case (Inr d')
    then show ?thesis
      using update_user_progress_owned [OF s ab Inr]
      by (simp add: UpdateProgress after_def result_state_def)
  qed
next
  case (DeleteProgress w)
  then show ?thesis by (simp add: after_def result_state_def delete_from_user_progress_noop)
next
  case (UpdateSavedItems w f)
  then show ?thesis by (simp add: after_def result_state_def update_user_saved_items_noop)
next
  case (DeleteSavedItems w)
  then show ?thesis
    using delete_from_user_saved_items_owned [OF s ab, of w d]
    by (simp add: after_def result_state_def)
qed (use st in simp_all)

lemma select_not_owned:
  assumes s: "auth_uid s = Some a" and ab: "a \<noteq> b"
  shows "\<forall>r \<in> set (select_from_profiles s wp d). p_id r \<noteq> b"
    and "\<forall>r \<in> set (select_from_chat_conversations s wc d). cc_user_id r \<noteq> b"
    and "\<forall>r \<in> set (select_from_user_progress s wu d). up_user_id r \<noteq> b"
    and "\<forall>r \<in> set (select_from_user_saved_items s wi d). usi_user_id r \<noteq> b"
  using s ab
  by (auto simp: select_from_profiles_def select_from_chat_conversations_def
      select_from_user_progress_def select_from_user_saved_items_def rls_select_def
      permits_profiles permits_chat_conversations permits_user_progress
      permits_user_saved_items)

lemma select_messages_not_owned:
  assumes s: "auth_uid s = Some a" and ab: "a \<noteq> b"
    and pk: "distinct (map cc_id (chat_conversations d))"
  shows "\<forall>m \<in> set (select_from_chat_messages s wm d). \<not> message_owned_by d b m"
proof
  fix m assume "m \<in> set (select_from_chat_messages s wm d)"
  then obtain c where c: "c \<in> set (chat_conversations d)" "cc_id c = cm_conversation_id m"
      "cc_user_id c = a"
    using s by (auto simp: select_from_chat_messages_def rls_select_def permits_chat_messages)
  show "\<not> message_owned_by d b m"
  proof
    assume "message_owned_by d b m"
    then obtain c' where c': "c' \<in> set (chat_conversations d)"
        "cc_id c' = cm_conversation_id m" "cc_user_id c' = b"
      by (auto simp: message_owned_by_def list_ex_iff)
    have "c = c'" using one_owner [OF pk c(1) c'(1)] c(2) c'(2) by simp
    with c(3) c'(3) ab show False by simp
  qed
qed

section \<open>C2: principals are kept apart\<close>

text \<open>
  C2. Let the requester be principal \<open>a\<close> and \<open>b\<close> another principal, in a database whose
  conversations have distinct \<open>id\<close>s (the primary key, which every statement keeps). No select of \<open>a\<close> on \<open>profiles\<close>,
  \<open>chat_conversations\<close>, \<open>chat_messages\<close>, \<open>user_progress\<close> or \<open>user_saved_items\<close>, whatever
  its \<open>WHERE\<close> clause, returns a row owned by \<open>b\<close>; and after any update or delete statement
  of \<open>a\<close> on these tables the rows owned by \<open>b\<close> are, table by table, the rows that were
  there before.
\<close>

theorem C2_rows_of_another_principal_are_out_of_reach:
  assumes "auth_uid s = Some a" and "a \<noteq> b"
    and "distinct (map cc_id (chat_conversations d))"
  shows "(\<forall>r \<in> set (select_from_profiles s wp d). p_id r \<noteq> b)
    \<and> (\<forall>r \<in> set (select_from_chat_conversations s wc d). cc_user_id r \<noteq> b)
    \<and> (\<forall>m \<in> set (select_from_chat_messages s wm d). \<not> message_owned_by d b m)
    \<and> (\<forall>r \<in> set (select_from_user_progress s wu d). up_user_id r \<noteq> b)
    \<and> (\<forall>r \<in> set (select_from_user_saved_items s wi d). usi_user_id r \<noteq> b)
    \<and> (is_update_or_delete st \<longrightarrow> rows_owned_by b (after s now st d) = rows_owned_by b d)"
  using select_not_owned(1) [OF assms(1,2), of wp d]
    select_not_owned(2) [OF assms(1,2), of wc d]
    select_not_owned(3) [OF assms(1,2), of wu d]
    select_not_owned(4) [OF assms(1,2), of wi d]
    select_messages_not_owned [OF assms, of wm]
    update_or_delete_owned [OF assms, of st now]
  by (intro conjI impI)

text \<open>Principal 1 reads everything it can, deletes every conversation it can and rewrites
  every profile it can: what it reads is its own, and the rows of principal 2 stay.\<close>

theorem C2_witness:
  "auth_uid session1 = Some 1 \<and> (1::nat) \<noteq> 2
   \<and> distinct (map cc_id (chat_conversations db0))
   \<and> select_from_profiles session1 (\<lambda>r. True) db0 = [profile1]
   \<and> select_from_chat_messages session1 (\<lambda>r. True) db0 = [message1]
   \<and> rows_owned_by 2 db0 = ([profile2], [conversation2], [message2], [], [])
   \<and> rows_owned_by 2 (after session1 5000 (DeleteConversations (\<lambda>r. True)) db0)
       = ([profile2], [conversation2], [message2], [], [])
   \<and> rows_owned_by 2
        (after session1 5000 (UpdateProfiles (\<lambda>r. True) (\<lambda>r. r\<lparr>p_phone := Some ''0''\<rparr>)) db0)
       = ([profile2], [conversation2], [message2], [], [])"
proof -
  have h: "auth_uid session1 = Some 1" "(1::nat) \<noteq> 2"
    "distinct (map cc_id (chat_conversations db0))"
    by (simp_all add: example_defs)
  have own: "rows_owned_by 2 db0 = ([profile2], [conversation2], [message2], [], [])"
    by (simp add: rows_owned_by_def message_owned_by_def example_defs)
  have sel: "select_from_profiles session1 (\<lambda>r. True) db0 = [profile1]"
    "select_from_chat_messages session1 (\<lambda>r. True) db0 = [message1]"
    by (simp_all add: select_from_profiles_def select_from_chat_messages_def rls_select_def
        permits_profiles permits_chat_messages example_defs)
  show ?thesis
    using h own sel
      C2_rows_of_another_principal_are_out_of_reach
        [OF h, where st = "DeleteConversations (\<lambda>r. True)" and now = 5000]
      C2_rows_of_another_principal_are_out_of_reach
        [OF h, where st = "UpdateProfiles (\<lambda>r. True) (\<lambda>r. r\<lparr>p_phone := Some ''0''\<rparr>)"
          and now = 5000]
    by simp
qed

end
